theory Spec2Isabelle
  imports Complex_Main
begin

section \<open>Shared data model\<close>

text \<open>
  The exceptions of the Python source that the model keeps as values. A raise is the
  \<open>Inl\<close> branch of a sum, or the error component of a pair where the code has already
  mutated an object before it raises.
\<close>

datatype py_error =
    KeyError string
  | NameError string
  | ZeroDivisionError
  | AssertionError
  | RuntimeError
  | ValueError
  | FileNotFoundError string

text \<open>
  A tensor of parameters is its flattened data over the reals (the idealisation of the
  floating-point numbers of the source). A parameter carries its \<open>.data\<close>, its
  \<open>.requires_grad\<close> flag and its \<open>.grad\<close> (\<open>None\<close> until a backward pass writes it).
  A network is what \<open>named_parameters()\<close> yields: the parameters under their names,
  in order, each name once.
\<close>

type_synonym tensor = "real list"

record param =
  pdata :: tensor
  requires_grad_flag :: bool
  pgrad :: "tensor option"

type_synonym net = "(string \<times> param) list"

section \<open>EMA accumulator (\<open>accumulate\<close>, lines 50-55)\<close>

text \<open>\<open>t.mul_(c)\<close>: every element times \<open>c\<close>, in place.\<close>

definition mul_inplace :: "tensor \<Rightarrow> real \<Rightarrow> tensor" where
  "mul_inplace t c = map (\<lambda>a. a * c) t"

text \<open>
  \<open>t.add_(other, alpha=c)\<close>: \<open>t + c * other\<close> elementwise, in place. On the flattened
  data a source with another number of elements is the shape error of torch
  (broadcasting of a smaller source is outside this representation).
\<close>

definition add_inplace :: "tensor \<Rightarrow> tensor \<Rightarrow> real \<Rightarrow> py_error + tensor" where
  "add_inplace t other alpha =
     (if length t = length other then Inr (map2 (\<lambda>a b. a + alpha * b) t other)
      else Inl RuntimeError)"

text \<open>
  \<open>for k in par1.keys(): par1[k].data.mul_(decay).add_(par2[k].data, alpha=1 - decay)\<close>.
  The loop walks the target's entries in order. \<open>par2[k]\<close> is evaluated after
  \<open>mul_(decay)\<close> has run (Python evaluates the receiver chain before the arguments of the
  last call), so at a failing lookup the current entry is already scaled; the entries
  before it are fully blended and the entries after it untouched. The result is the
  target after the call and the exception, if any.
\<close>

fun accumulate :: "net \<Rightarrow> net \<Rightarrow> real \<Rightarrow> net \<times> py_error option" where
  "accumulate [] model2 decay = ([], None)"
| "accumulate ((k, p) # ps) model2 decay =
     (let t = mul_inplace (pdata p) decay in
      case map_of model2 k of
        None \<Rightarrow> ((k, p\<lparr>pdata := t\<rparr>) # ps, Some (KeyError k))
      | Some q \<Rightarrow>
          (case add_inplace t (pdata q) (1 - decay) of
             Inl e \<Rightarrow> ((k, p\<lparr>pdata := t\<rparr>) # ps, Some e)
           | Inr t' \<Rightarrow>
               (case accumulate ps model2 decay of
                  (ps', e) \<Rightarrow> ((k, p\<lparr>pdata := t'\<rparr>) # ps', e))))"

section \<open>Scalars that may fail to be finite\<close>

text \<open>
  A scalar result of the source is a floating-point number. Over exact real arithmetic
  the only way the modelled code leaves the finite numbers is a division by zero (the
  mean of an empty tensor, a zero normaliser) or a fractional power of a negative
  number; torch then yields NaN or an infinity and carries on. \<open>None\<close> stands for such
  a non-finite value; it propagates through \<open>+\<close>, \<open>-\<close> and \<open>*\<close>.
\<close>

type_synonym scalar = "real option"

definition sadd :: "scalar \<Rightarrow> scalar \<Rightarrow> scalar" where
  "sadd a b = (case (a, b) of (Some x, Some y) \<Rightarrow> Some (x + y) | _ \<Rightarrow> None)"

definition ssub :: "scalar \<Rightarrow> scalar \<Rightarrow> scalar" where
  "ssub a b = (case (a, b) of (Some x, Some y) \<Rightarrow> Some (x - y) | _ \<Rightarrow> None)"

definition smul :: "scalar \<Rightarrow> scalar \<Rightarrow> scalar" where
  "smul a b = (case (a, b) of (Some x, Some y) \<Rightarrow> Some (x * y) | _ \<Rightarrow> None)"

definition sneg :: "scalar \<Rightarrow> scalar" where
  "sneg a = map_option uminus a"

definition true_divide :: "real \<Rightarrow> real \<Rightarrow> scalar" where
  "true_divide a b = (if b = 0 then None else Some (a / b))"

text \<open>\<open>x ** 0.5\<close> and \<open>torch.sqrt\<close>: the square root, NaN below zero.\<close>

definition pow_half :: "real \<Rightarrow> scalar" where
  "pow_half x = (if x < 0 then None else Some (sqrt x))"

text \<open>\<open>t.mean()\<close> of a one-dimensional tensor: NaN when it is empty or holds a NaN.\<close>

definition tmean :: "scalar list \<Rightarrow> scalar" where
  "tmean xs =
     (if xs = [] then None
      else map_option (\<lambda>ys. sum_list ys / real (length ys)) (those xs))"

section \<open>Kernel alignment (\<open>KA\<close>, lines 127-135)\<close>

text \<open>
  The argument of \<open>KA\<close> is a tensor whose first dimension is the batch. It is
  represented by its rows: one list per batch index, holding the flattened remaining
  dimensions, which is what \<open>X.view(X.size(0), -1)\<close> produces. On a tensor with batch
  size zero that call raises (the \<open>-1\<close> dimension is ambiguous).
\<close>

type_synonym matrix = "real list list"

definition view_rows :: "matrix \<Rightarrow> py_error + matrix" where
  "view_rows X = (if X = [] then Inl RuntimeError else Inr X)"

definition dot :: "real list \<Rightarrow> real list \<Rightarrow> real" where
  "dot r s = sum_list (map2 (*) r s)"

text \<open>\<open>X_ @ X_.T\<close>: the batch-by-batch Gram matrix.\<close>

definition gram :: "matrix \<Rightarrow> matrix" where
  "gram X = map (\<lambda>r. map (dot r) X) X"

text \<open>\<open>(A * B).sum()\<close> and \<open>(A**2).sum()\<close> on matrices of one shape.\<close>

definition mul_sum :: "matrix \<Rightarrow> matrix \<Rightarrow> real" where
  "mul_sum A B = sum_list (concat (map2 (map2 (*)) A B))"

definition square_sum :: "matrix \<Rightarrow> real" where
  "square_sum A = sum_list (concat (map (map (\<lambda>a. a\<^sup>2)) A))"

definition KA :: "matrix \<Rightarrow> matrix \<Rightarrow> py_error + scalar" where
  "KA X Y =
     (case view_rows X of
        Inl e \<Rightarrow> Inl e
      | Inr X' \<Rightarrow>
          (case view_rows Y of
             Inl e \<Rightarrow> Inl e
           | Inr Y' \<Rightarrow>
               if length X' \<noteq> length Y' then Inl AssertionError
               else
                 let X_vec = gram X'; Y_vec = gram Y' in
                 Inr (case pow_half (square_sum X_vec * square_sum Y_vec) of
                        None \<Rightarrow> None
                      | Some n \<Rightarrow> true_divide (mul_sum X_vec Y_vec) n)))"

section \<open>Noise sampler (\<open>make_noise\<close>, \<open>mixing_noise\<close>, lines 103-117)\<close>

text \<open>
  The two random sources the sampler draws from, as streams that each draw consumes:
  Python's \<open>random.random()\<close> and torch's normal generator.
\<close>

record rng =
  uniform_stream :: "nat \<Rightarrow> real"
  normal_stream :: "nat \<Rightarrow> real"

record shaped =
  shape :: "nat list"
  entries :: "real list"

text \<open>What the sampler returns: a tensor, or a Python sequence (list or tuple).\<close>

datatype pyval = Tensor shaped | Seq "pyval list"

text \<open>\<open>torch.randn(*dims)\<close>: a negative dimension raises.\<close>

definition randn :: "int list \<Rightarrow> rng \<Rightarrow> py_error + (shaped \<times> rng)" where
  "randn dims g =
     (if list_ex (\<lambda>d. d < 0) dims then Inl RuntimeError
      else
        let sh = map nat dims; n = prod_list sh in
        Inr (\<lparr>shape = sh, entries = map (normal_stream g) [0..<n]\<rparr>,
             g\<lparr>normal_stream := (\<lambda>i. normal_stream g (i + n))\<rparr>))"

text \<open>\<open>t.unbind(0)\<close>: the slices along the first dimension; none on a 0-dim tensor.\<close>

definition unbind0 :: "shaped \<Rightarrow> py_error + shaped list" where
  "unbind0 t =
     (case shape t of
        [] \<Rightarrow> Inl RuntimeError
      | n # rest \<Rightarrow>
          let m = prod_list rest in
          Inr (map (\<lambda>i. \<lparr>shape = rest, entries = take m (drop (i * m) (entries t))\<rparr>)
                   [0..<n]))"

definition make_noise :: "int \<Rightarrow> int \<Rightarrow> int \<Rightarrow> rng \<Rightarrow> py_error + (pyval \<times> rng)" where
  "make_noise batch latent_dim n_noise g =
     (if n_noise = 1 then
        (case randn [batch, latent_dim] g of
           Inl e \<Rightarrow> Inl e
         | Inr (t, g') \<Rightarrow> Inr (Tensor t, g'))
      else
        (case randn [n_noise, batch, latent_dim] g of
           Inl e \<Rightarrow> Inl e
         | Inr (t, g') \<Rightarrow>
             (case unbind0 t of
                Inl e \<Rightarrow> Inl e
              | Inr noises \<Rightarrow> Inr (Seq (map Tensor noises), g'))))"

text \<open>
  \<open>if prob > 0 and random.random() < prob\<close>: the uniform draw happens only when
  \<open>prob > 0\<close> (short-circuit \<open>and\<close>).
\<close>

definition mixing_noise :: "int \<Rightarrow> int \<Rightarrow> real \<Rightarrow> rng \<Rightarrow> py_error + (pyval \<times> rng)" where
  "mixing_noise batch latent_dim prob g =
     (if prob > 0 then
        (let r = uniform_stream g 0;
             g1 = g\<lparr>uniform_stream := (\<lambda>i. uniform_stream g (Suc i))\<rparr> in
         if r < prob then make_noise batch latent_dim 2 g1
         else
           (case make_noise batch latent_dim 1 g1 of
              Inl e \<Rightarrow> Inl e
            | Inr (v, g') \<Rightarrow> Inr (Seq [v], g')))
      else
        (case make_noise batch latent_dim 1 g of
           Inl e \<Rightarrow> Inl e
         | Inr (v, g') \<Rightarrow> Inr (Seq [v], g')))"

section \<open>Path-length regularisation (\<open>g_path_regularize\<close>, lines 87-100)\<close>

text \<open>
  Lines 88-93 draw the image noise and ask autograd for the gradient of
  \<open>(fake_img * noise).sum()\<close> with respect to the latents. That gradient, of shape
  (batch, n_latent, dim), is the argument \<open>grad\<close> here; lines 94-100 are computed on it.
  \<open>path_lengths = sqrt(grad.pow(2).sum(2).mean(1))\<close>.
\<close>

definition path_lengths_of :: "real list list list \<Rightarrow> scalar list" where
  "path_lengths_of grad =
     map (\<lambda>g. case tmean (map (\<lambda>row. Some (sum_list (map (\<lambda>a. a\<^sup>2) row))) g) of
                None \<Rightarrow> None
              | Some s \<Rightarrow> pow_half s) grad"

definition g_path_regularize ::
  "real list list list \<Rightarrow> scalar \<Rightarrow> real \<Rightarrow> scalar \<times> scalar \<times> scalar list" where
  "g_path_regularize grad mean_path_length decay =
     (let path_lengths = path_lengths_of grad;
          path_mean = sadd mean_path_length
                        (smul (Some decay) (ssub (tmean path_lengths) mean_path_length));
          path_penalty = tmean (map (\<lambda>l. smul (ssub l path_mean) (ssub l path_mean))
                                    path_lengths)
      in (path_penalty, path_mean, path_lengths))"


section \<open>Python string helpers used for file names\<close>

text \<open>
  \<open>str(i)\<close> for an integer: decimal digits, with a minus sign below zero.
\<close>

definition digit_char :: "nat \<Rightarrow> char" where
  "digit_char n = ''0123456789'' ! n"

fun nat_digits :: "nat \<Rightarrow> string" where
  "nat_digits n =
     (if n < 10 then [digit_char n] else nat_digits (n div 10) @ [digit_char (n mod 10)])"

declare nat_digits.simps [simp del]

definition py_str :: "int \<Rightarrow> string" where
  "py_str i = (if i < 0 then CHR ''-'' # nat_digits (nat (- i)) else nat_digits (nat i))"

text \<open>\<open>s.zfill(width)\<close>: zeros on the left up to \<open>width\<close>, after a leading sign.\<close>

definition zfill :: "string \<Rightarrow> nat \<Rightarrow> string" where
  "zfill s width =
     (if length s \<ge> width then s
      else
        (case s of
           c # rest \<Rightarrow>
             if c = CHR ''+'' \<or> c = CHR ''-''
             then c # replicate (width - length s) CHR ''0'' @ rest
             else replicate (width - length s) CHR ''0'' @ s
         | [] \<Rightarrow> replicate width CHR ''0''))"

text \<open>\<open>s.rfind(c)\<close>: the index of the last occurrence of \<open>c\<close>, or \<open>-1\<close>.\<close>

fun rfind_from :: "char \<Rightarrow> string \<Rightarrow> int \<Rightarrow> int \<Rightarrow> int" where
  "rfind_from c [] i found = found"
| "rfind_from c (x # xs) i found = rfind_from c xs (i + 1) (if x = c then i else found)"

definition rfind :: "char \<Rightarrow> string \<Rightarrow> int" where
  "rfind c s = rfind_from c s 0 (- 1)"

text \<open>\<open>os.path.basename\<close> (posix): everything after the last slash.\<close>

definition basename :: "string \<Rightarrow> string" where
  "basename p = drop (nat (rfind CHR ''/'' p + 1)) p"

text \<open>
  \<open>os.path.splitext\<close> (posix): split at the last dot, if that dot comes after the last
  slash and some character between them is not a dot.
\<close>

definition splitext :: "string \<Rightarrow> string \<times> string" where
  "splitext p =
     (let sepIndex = rfind CHR ''/'' p; dotIndex = rfind CHR ''.'' p in
      if dotIndex > sepIndex
         \<and> list_ex (\<lambda>c. c \<noteq> CHR ''.'')
              (take (nat (dotIndex - (sepIndex + 1))) (drop (nat (sepIndex + 1)) p))
      then (take (nat dotIndex) p, drop (nat dotIndex) p)
      else (p, []))"

text \<open>
  \<open>int(s)\<close> on a string: surrounding whitespace is dropped, one sign is allowed, then
  decimal digits, single underscores allowed between digits. Anything else is
  \<open>ValueError\<close>. (Characters are bytes here: the non-ASCII digits and spaces that
  Python also accepts are not modelled.)
\<close>

definition is_space :: "char \<Rightarrow> bool" where
  "is_space c = (c \<in> set [CHR '' '', CHR 0x09, CHR 0x0A, CHR 0x0B, CHR 0x0C, CHR 0x0D])"

definition is_digit :: "char \<Rightarrow> bool" where
  "is_digit c = (c \<in> set ''0123456789'')"

definition strip :: "string \<Rightarrow> string" where
  "strip s = rev (dropWhile is_space (rev (dropWhile is_space s)))"

fun digits_value :: "string \<Rightarrow> bool \<Rightarrow> nat \<Rightarrow> nat option" where
  "digits_value [] after_digit acc = (if after_digit then Some acc else None)"
| "digits_value (c # cs) after_digit acc =
     (if is_digit c then digits_value cs True (acc * 10 + (of_char c - 48))
      else if c = CHR ''_'' \<and> after_digit then digits_value cs False acc
      else None)"

definition py_int :: "string \<Rightarrow> py_error + int" where
  "py_int s =
     (case strip s of
        [] \<Rightarrow> Inl ValueError
      | c # rest \<Rightarrow>
          if c = CHR ''-'' then
            (case digits_value rest False 0 of
               None \<Rightarrow> Inl ValueError | Some n \<Rightarrow> Inr (- int n))
          else if c = CHR ''+'' then
            (case digits_value rest False 0 of
               None \<Rightarrow> Inl ValueError | Some n \<Rightarrow> Inr (int n))
          else
            (case digits_value (c # rest) False 0 of
               None \<Rightarrow> Inl ValueError | Some n \<Rightarrow> Inr (int n)))"

text \<open>\<open>sub in s\<close> on strings: \<open>sub\<close> occurs as a contiguous piece of \<open>s\<close>.\<close>

fun starts_with :: "string \<Rightarrow> string \<Rightarrow> bool" where
  "starts_with s [] = True"
| "starts_with [] (c # sub) = False"
| "starts_with (x # s) (c # sub) = (x = c \<and> starts_with s sub)"

fun str_contains :: "string \<Rightarrow> string \<Rightarrow> bool" where
  "str_contains [] sub = (sub = [])"
| "str_contains (x # s) sub = (starts_with (x # s) sub \<or> str_contains s sub)"

section \<open>Configuration, networks, optimizers and external collaborators\<close>

text \<open>
  The parsed command line, with the fields that \<open>__main__\<close> adds (\<open>latent\<close>,
  \<open>start_iter\<close>, \<open>distributed\<close>). Only the options that the modelled code reads are
  kept.
\<close>

record args =
  args_arch :: string
  args_iter :: int
  args_batch :: int
  args_n_sample :: int
  args_r1 :: real
  args_path_regularize :: real
  args_path_batch_shrink :: int
  args_d_reg_every :: int
  args_g_reg_every :: int
  args_mixing :: real
  args_ckpt :: "string option"
  args_ckpt_s :: "string option"
  args_lr :: real
  args_wandb :: bool
  args_augment :: bool
  args_augment_p :: real
  args_kernel_alignment :: bool
  args_perc_loss :: bool
  args_inherit_style :: bool
  args_expr_dir :: string
  args_latent :: int
  args_start_iter :: int
  args_distributed :: bool

text \<open>
  The six networks that \<open>__main__\<close> builds, named after its variables. The store maps
  each to its parameters, so that which object an optimizer or a call mutates is
  explicit.
\<close>

datatype model_id =
    Generator
  | Discriminator
  | G_ema
  | Student_generator
  | Student_discriminator
  | Student_g_ema

type_synonym store = "model_id \<Rightarrow> net"

text \<open>\<open>model.state_dict()\<close>: the data under each name (buffers are not modelled).\<close>

type_synonym weights = "(string \<times> tensor) list"

definition state_dict :: "net \<Rightarrow> weights" where
  "state_dict n = map (\<lambda>(k, p). (k, pdata p)) n"

text \<open>
  An Adam optimizer: the network whose \<open>parameters()\<close> it was constructed over, its
  hyperparameters, and its per-parameter buffers, which only torch reads.
\<close>

type_synonym opt_state = "(string \<times> tensor) list"

record optimizer =
  opt_params :: model_id
  opt_lr :: real
  opt_betas :: "real \<times> real"
  opt_state :: opt_state

text \<open>The dictionary that line 383 saves and \<open>torch.load\<close> returns.\<close>

record checkpoint =
  ck_g :: weights
  ck_d :: weights
  ck_g_ema :: weights
  ck_g_optim :: opt_state
  ck_d_optim :: opt_state
  ck_args :: args
  ck_ada_aug_p :: real

text \<open>The four losses on which the loop calls \<open>backward()\<close>.\<close>

datatype phase = D_loss | R1_penalty | G_loss | Path_penalty

text \<open>
  What the collaborators outside this file return: the process group (\<open>get_rank\<close>,
  \<open>get_world_size\<close>, the reductions), whether \<open>wandb\<close> could be imported, the forward
  passes of the networks on the current parameters (with the data batch and the
  augmentation of iteration \<open>i\<close>), the gradients autograd computes, and Adam's update.
  Every property below holds for all of them.
\<close>

record env =
  get_rank :: nat
  get_world_size :: nat
  wandb_imported :: bool
  reduce_values :: "string \<Rightarrow> scalar \<Rightarrow> scalar"
  reduce_sum_value :: "scalar \<Rightarrow> scalar"
  d_forward :: "int \<Rightarrow> pyval \<Rightarrow> store \<Rightarrow> real \<Rightarrow> scalar \<times> scalar \<times> scalar"
  ada_tune :: "int \<Rightarrow> store \<Rightarrow> real \<times> real"
  r1_forward :: "int \<Rightarrow> store \<Rightarrow> real \<Rightarrow> scalar"
  g_forward ::
    "int \<Rightarrow> pyval \<Rightarrow> store \<Rightarrow> real \<Rightarrow> scalar \<times> matrix list \<times> matrix list \<times> scalar"
  path_forward :: "int \<Rightarrow> pyval \<Rightarrow> store \<Rightarrow> real list list list"
  backward_grad :: "phase \<Rightarrow> int \<Rightarrow> store \<Rightarrow> model_id \<Rightarrow> string \<Rightarrow> tensor"
  adam_update :: "optimizer \<Rightarrow> string \<Rightarrow> tensor \<Rightarrow> tensor \<Rightarrow> tensor"
  adam_state :: "optimizer \<Rightarrow> net \<Rightarrow> opt_state"

text \<open>
  Modelled from the spec: \<open>reduce_loss_dict\<close> and \<open>reduce_sum\<close> of the module
  \<open>distributed\<close>, which is not among the sources. The spec: metric reduction
  "aggregates per-process scalar losses into a reduced view for logging (collapses to
  identity in a non-distributed setting)". Every key is kept; with more than one
  process the reduced values are the collaborator's.
\<close>

definition reduced_metric :: "env \<Rightarrow> string \<Rightarrow> scalar \<Rightarrow> scalar" where
  "reduced_metric e k v = (if get_world_size e < 2 then v else reduce_values e k v)"

definition reduce_loss_dict :: "env \<Rightarrow> (string \<rightharpoonup> scalar) \<Rightarrow> (string \<rightharpoonup> scalar)" where
  "reduce_loss_dict e d = (\<lambda>k. map_option (reduced_metric e k) (d k))"

definition reduce_sum :: "env \<Rightarrow> scalar \<Rightarrow> scalar" where
  "reduce_sum e v = (if get_world_size e < 2 then v else reduce_sum_value e v)"

section \<open>Gradient flags, backward passes, optimizer steps\<close>

text \<open>The names and sizes of a network's parameters.\<close>

definition net_shape :: "net \<Rightarrow> (string \<times> nat) list" where
  "net_shape n = map (\<lambda>(k, p). (k, length (pdata p))) n"


text \<open>\<open>requires_grad(model, flag)\<close>, lines 45-47.\<close>

definition requires_grad :: "net \<Rightarrow> bool \<Rightarrow> net" where
  "requires_grad n flag = map (\<lambda>(k, p). (k, p\<lparr>requires_grad_flag := flag\<rparr>)) n"

text \<open>\<open>model.zero_grad()\<close>: the gradients that exist are zeroed.\<close>

definition zero_grad :: "net \<Rightarrow> net" where
  "zero_grad n = map (\<lambda>(k, p). (k, p\<lparr>pgrad := map_option (map (\<lambda>a. 0)) (pgrad p)\<rparr>)) n"

text \<open>
  \<open>loss.backward()\<close>: autograd adds a gradient to \<open>.grad\<close> of every parameter that
  requires it, in the networks that took part in computing the loss. No \<open>.data\<close> is
  touched.
\<close>

definition accumulate_grad :: "param \<Rightarrow> tensor \<Rightarrow> param" where
  "accumulate_grad p g =
     p\<lparr>pgrad := Some (case pgrad p of None \<Rightarrow> g | Some old \<Rightarrow> map2 (+) old g)\<rparr>"

definition backward :: "env \<Rightarrow> phase \<Rightarrow> int \<Rightarrow> model_id list \<Rightarrow> store \<Rightarrow> store" where
  "backward e ph i graph st =
     (\<lambda>m. if m \<in> set graph
          then map (\<lambda>(k, p). if requires_grad_flag p
                              then (k, accumulate_grad p (backward_grad e ph i st m k))
                              else (k, p)) (st m)
          else st m)"

text \<open>
  \<open>optimizer.step()\<close>: Adam rewrites the data of those parameters it was constructed
  over that have a gradient, and its own buffers.
\<close>

definition optim_step :: "env \<Rightarrow> optimizer \<Rightarrow> store \<Rightarrow> store \<times> optimizer" where
  "optim_step e opt st =
     (let n = st (opt_params opt);
          n' = map (\<lambda>(k, p). case pgrad p of
                                 None \<Rightarrow> (k, p)
                               | Some g \<Rightarrow> (k, p\<lparr>pdata := adam_update e opt k (pdata p) g\<rparr>)) n
      in (st(opt_params opt := n'), opt\<lparr>opt_state := adam_state e opt n\<rparr>))"

section \<open>The training loop (\<open>train\<close>, lines 138-394)\<close>

text \<open>
  What the loop does to the outside, in order: directories made, the message printed
  at the end, the progress line and the metrics sent to wandb, image grids and
  checkpoints written. \<open>D_r1_loss i v\<close> records that iteration \<open>i\<close> called
  \<open>d_r1_loss\<close> and got \<open>v\<close>. The events of an iteration carry its index.
\<close>

datatype event =
    Makedirs string
  | Print string
  | D_r1_loss int scalar
  | Set_description int "(string \<times> scalar) list"
  | Wandb_log int "(string \<times> scalar) list"
  | Save_image string
  | Torch_save string checkpoint

record train_state =
  store :: store
  g_optim :: optimizer
  d_optim :: optimizer
  rng :: rng
  mean_path_length :: scalar
  r1_loss :: scalar
  path_loss :: scalar
  path_lengths :: "scalar list"
  mean_path_length_avg :: scalar
  loss_dict :: "string \<rightharpoonup> scalar"
  ada_aug_p :: real
  r_t_stat :: real
  events :: "event list"

text \<open>
  A step returns the state it reached and the exception it raised, if any; the next
  step runs only when there was none.
\<close>

type_synonym outcome = "train_state \<times> py_error option"

definition and_then :: "outcome \<Rightarrow> (train_state \<Rightarrow> outcome) \<Rightarrow> outcome" where
  "and_then r f = (case r of (s, None) \<Rightarrow> f s | (s, Some e) \<Rightarrow> (s, Some e))"

text \<open>
  Lines 194-228, the discriminator step. The real batch of iteration \<open>i\<close>, the
  augmentation and the two networks' forward passes are the collaborator
  \<open>d_forward\<close>; the loop's own part is the flags, the noise draw, the three metrics,
  the backward pass and the step of \<open>d_optim\<close>, then the adaptive tuning.
\<close>

definition discriminator_step :: "env \<Rightarrow> args \<Rightarrow> int \<Rightarrow> train_state \<Rightarrow> outcome" where
  "discriminator_step e a i s =
     (let st1 = (store s)(Generator := requires_grad (store s Generator) False);
          st2 = st1(Student_generator := requires_grad (st1 Student_generator) False);
          st3 = st2(Student_discriminator := requires_grad (st2 Student_discriminator) True)
      in case mixing_noise (args_batch a) (args_latent a) (args_mixing a) (rng s) of
           Inl err \<Rightarrow> (s\<lparr>store := st3\<rparr>, Some err)
         | Inr (noise, g') \<Rightarrow>
             (case d_forward e i noise st3 (ada_aug_p s) of
                (d_loss, real_score, fake_score) \<Rightarrow>
                  let ld = (loss_dict s)(''d'' \<mapsto> d_loss, ''real_score'' \<mapsto> real_score,
                                         ''fake_score'' \<mapsto> fake_score);
                      st4 = st3(Student_discriminator := zero_grad (st3 Student_discriminator));
                      st5 = backward e D_loss i [Student_generator, Student_discriminator] st4
                  in case optim_step e (d_optim s) st5 of
                       (st6, opt) \<Rightarrow>
                         let tuned = (if args_augment a \<and> args_augment_p a = 0
                                      then ada_tune e i st6
                                      else (ada_aug_p s, r_t_stat s))
                         in (s\<lparr>store := st6, d_optim := opt, rng := g', loss_dict := ld,
                               ada_aug_p := fst tuned, r_t_stat := snd tuned\<rparr>, None)))"

text \<open>
  Lines 231-250, the discriminator regularisation. \<open>i % args.d_reg_every\<close> raises on a
  zero divisor; Python's \<open>%\<close> on integers is the floored \<open>mod\<close> of HOL. The metric
  \<open>loss_dict["r1"]\<close> is set from the variable \<open>r1_loss\<close> whether or not it was
  recomputed.
\<close>

definition discriminator_regularize :: "env \<Rightarrow> args \<Rightarrow> int \<Rightarrow> train_state \<Rightarrow> outcome" where
  "discriminator_regularize e a i s =
     (if args_d_reg_every a = 0 then (s, Some ZeroDivisionError)
      else
        let s1 =
          (if i mod args_d_reg_every a = 0 then
             (let r1 = r1_forward e i (store s) (ada_aug_p s);
                  st1 = (store s)(Student_discriminator :=
                                    zero_grad (store s Student_discriminator));
                  st2 = backward e R1_penalty i [Student_discriminator] st1
              in case optim_step e (d_optim s) st2 of
                   (st3, opt) \<Rightarrow>
                     s\<lparr>store := st3, d_optim := opt, r1_loss := r1,
                       events := events s @ [D_r1_loss i r1]\<rparr>)
           else s)
        in (s1\<lparr>loss_dict := (loss_dict s1)(''r1'' \<mapsto> r1_loss s1)\<rparr>, None))"

text \<open>
  Lines 282-283: \<open>dist_loss += KA(f_s, f_t)\<close> over the zipped feature maps; an
  assertion failure inside \<open>KA\<close> ends the loop.
\<close>

fun ka_sum :: "(matrix \<times> matrix) list \<Rightarrow> scalar \<Rightarrow> py_error + scalar" where
  "ka_sum [] dist_loss = Inr dist_loss"
| "ka_sum ((f_s, f_t) # rest) dist_loss =
     (case KA f_s f_t of
        Inl err \<Rightarrow> Inl err
      | Inr v \<Rightarrow> ka_sum rest (sadd dist_loss v))"

text \<open>
  Lines 260-300, the generator step. The teacher \<open>generator\<close> is set to require
  gradients (line 261) and its forward pass enters the loss when kernel alignment or
  the perceptual loss is on, so \<open>backward()\<close> then writes gradients into the teacher's
  parameters too; the step that follows is the step of \<open>g_optim\<close>.
\<close>

definition generator_step :: "env \<Rightarrow> args \<Rightarrow> int \<Rightarrow> train_state \<Rightarrow> outcome" where
  "generator_step e a i s =
     (let st1 = (store s)(Student_generator := requires_grad (store s Student_generator) True);
          st2 = st1(Generator := requires_grad (st1 Generator) True);
          st3 = st2(Student_discriminator := requires_grad (st2 Student_discriminator) False)
      in case mixing_noise (args_batch a) (args_latent a) (args_mixing a) (rng s) of
           Inl err \<Rightarrow> (s\<lparr>store := st3\<rparr>, Some err)
         | Inr (noise, g') \<Rightarrow>
             (case g_forward e i noise st3 (ada_aug_p s) of
                (adv, f_maps_s, f_maps_t, perc) \<Rightarrow>
                  (case (if args_kernel_alignment a
                         then (case ka_sum (zip f_maps_s f_maps_t) (Some 0) of
                                 Inl err \<Rightarrow> Inl err
                               | Inr dist_loss \<Rightarrow> Inr (sadd adv (sneg dist_loss)))
                         else Inr adv) of
                     Inl err \<Rightarrow> (s\<lparr>store := st3, rng := g'\<rparr>, Some err)
                   | Inr g_loss1 \<Rightarrow>
                       let g_loss = (if args_perc_loss a then sadd g_loss1 perc else g_loss1);
                           ld = (loss_dict s)(''g'' \<mapsto> g_loss);
                           st4 = st3(Student_generator := zero_grad (st3 Student_generator));
                           graph = [Student_discriminator, Student_generator]
                                   @ (if args_kernel_alignment a \<or> args_perc_loss a
                                      then [Generator] else []);
                           st5 = backward e G_loss i graph st4
                       in case optim_step e (g_optim s) st5 of
                            (st6, opt) \<Rightarrow>
                              (s\<lparr>store := st6, g_optim := opt, rng := g',
                                 loss_dict := ld\<rparr>, None))))"

text \<open>
  Lines 302-331, the generator regularisation. \<open>args.batch // args.path_batch_shrink\<close>
  is evaluated (and raises on zero) before the later test \<open>if args.path_batch_shrink\<close>;
  that test only adds a term that is numerically zero. \<open>get_world_size()\<close> divides a
  Python float.
\<close>

definition generator_regularize :: "env \<Rightarrow> args \<Rightarrow> int \<Rightarrow> train_state \<Rightarrow> outcome" where
  "generator_regularize e a i s =
     (if args_g_reg_every a = 0 then (s, Some ZeroDivisionError)
      else
        and_then
          (if i mod args_g_reg_every a = 0 then
             (if args_path_batch_shrink a = 0 then (s, Some ZeroDivisionError)
              else
                let path_batch_size = max 1 (args_batch a div args_path_batch_shrink a)
                in case mixing_noise path_batch_size (args_latent a) (args_mixing a) (rng s) of
                     Inl err \<Rightarrow> (s, Some err)
                   | Inr (noise, g') \<Rightarrow>
                       (case g_path_regularize (path_forward e i noise (store s))
                               (mean_path_length s) (1 / 100) of
                          (path_loss', mean_path_length', path_lengths') \<Rightarrow>
                            let st1 = (store s)(Student_generator :=
                                                  zero_grad (store s Student_generator));
                                st2 = backward e Path_penalty i [Student_generator] st1
                            in case optim_step e (g_optim s) st2 of
                                 (st3, opt) \<Rightarrow>
                                   let s1 = s\<lparr>store := st3, g_optim := opt, rng := g',
                                              path_loss := path_loss',
                                              mean_path_length := mean_path_length',
                                              path_lengths := path_lengths'\<rparr>
                                   in if get_world_size e = 0 then (s1, Some ZeroDivisionError)
                                      else
                                        (s1\<lparr>mean_path_length_avg :=
                                               map_option (\<lambda>v. v / real (get_world_size e))
                                                 (reduce_sum e mean_path_length')\<rparr>, None)))
           else (s, None))
          (\<lambda>s1. (s1\<lparr>loss_dict := (loss_dict s1)(''path'' \<mapsto> path_loss s1,
                                  ''path_length'' \<mapsto> tmean (path_lengths s1))\<rparr>, None)))"

text \<open>
  Line 333: \<open>accumulate(student_g_ema, g_module, accum)\<close> with
  \<open>accum = 0.5 ** (32 / (10 * 1000))\<close>; \<open>g_module\<close> has the parameters of the student
  generator.
\<close>

definition accum :: real where
  "accum = (1 / 2) powr (32 / (10 * 1000))"

definition ema_update :: "train_state \<Rightarrow> outcome" where
  "ema_update s =
     (case accumulate (store s Student_g_ema) (store s Student_generator) accum of
        (n, err) \<Rightarrow> (s\<lparr>store := (store s)(Student_g_ema := n)\<rparr>, err))"

text \<open>\<open>d[k]\<close> on a dictionary.\<close>

definition get_item :: "(string \<rightharpoonup> scalar) \<Rightarrow> string \<Rightarrow> py_error + scalar" where
  "get_item d k = (case d k of None \<Rightarrow> Inl (KeyError k) | Some v \<Rightarrow> Inr v)"

definition bind_err :: "py_error + 'a \<Rightarrow> ('a \<Rightarrow> py_error + 'b) \<Rightarrow> py_error + 'b" where
  "bind_err r f = (case r of Inl err \<Rightarrow> Inl err | Inr v \<Rightarrow> f v)"

text \<open>
  Lines 370-394 on rank zero: the sample grid when \<open>i % 1000 == 0\<close>, the checkpoint
  when \<open>i % 10000 == 0\<close>, under names made of \<open>str(i).zfill(6)\<close>. The pixels of the grid
  are the EMA generator's and are not recorded.
\<close>

definition sample_path :: "string \<Rightarrow> int \<Rightarrow> string" where
  "sample_path save_dir i = save_dir @ ''/sample/'' @ zfill (py_str i) 6 @ ''-student.png''"

definition checkpoint_path :: "string \<Rightarrow> int \<Rightarrow> string" where
  "checkpoint_path save_dir i = save_dir @ ''/checkpoints/'' @ zfill (py_str i) 6 @ ''.pt''"

definition periodic_outputs :: "args \<Rightarrow> int \<Rightarrow> train_state \<Rightarrow> event list" where
  "periodic_outputs a i s =
     (if i mod 1000 = 0 then [Save_image (sample_path (args_expr_dir a) i)] else [])
     @ (if i mod 10000 = 0 then
          [Torch_save (checkpoint_path (args_expr_dir a) i)
             \<lparr>ck_g = state_dict (store s Student_generator),
              ck_d = state_dict (store s Student_discriminator),
              ck_g_ema = state_dict (store s Student_g_ema),
              ck_g_optim = opt_state (g_optim s),
              ck_d_optim = opt_state (d_optim s),
              ck_args = a,
              ck_ada_aug_p = ada_aug_p s\<rparr>]
        else [])"

text \<open>
  Lines 335-394: the metrics are reduced and read back, and rank zero reports them and
  writes the periodic outputs.
\<close>

definition report :: "env \<Rightarrow> args \<Rightarrow> int \<Rightarrow> train_state \<Rightarrow> outcome" where
  "report e a i s =
     (let loss_reduced = reduce_loss_dict e (loss_dict s) in
      case
        bind_err (get_item loss_reduced ''g'') (\<lambda>g_loss_val.
        bind_err (get_item loss_reduced ''d'') (\<lambda>d_loss_val.
        bind_err (get_item loss_reduced ''path'') (\<lambda>path_loss_val.
        bind_err (get_item loss_reduced ''path_length'') (\<lambda>path_length_val.
        bind_err (get_item loss_reduced ''r1'') (\<lambda>r1_val.
        bind_err (get_item loss_reduced ''real_score'') (\<lambda>real_score_val.
        bind_err (get_item loss_reduced ''fake_score'') (\<lambda>fake_score_val.
          Inr
            ([Set_description i
                [(''d'', d_loss_val), (''g'', g_loss_val), (''r1'', r1_val),
                 (''path'', path_loss_val), (''mean path'', mean_path_length_avg s),
                 (''augment'', Some (ada_aug_p s))]]
             @ (if wandb_imported e \<and> args_wandb a then
                  [Wandb_log i
                     [(''Generator'', g_loss_val), (''Discriminator'', d_loss_val),
                      (''Augment'', Some (ada_aug_p s)), (''Rt'', Some (r_t_stat s)),
                      (''R1'', r1_val), (''Path Length Regularization'', path_loss_val),
                      (''Mean Path Length'', mean_path_length s),
                      (''Real Score'', real_score_val), (''Fake Score'', fake_score_val),
                      (''Path Length'', path_length_val)]]
                else [])
             @ periodic_outputs a i s))))))))
      of
        Inl err \<Rightarrow> (s, Some err)
      | Inr evs \<Rightarrow>
          (if get_rank e = 0 then s\<lparr>events := events s @ evs\<rparr> else s, None))"

text \<open>One pass through the body of the loop, for the iteration index \<open>i\<close>.\<close>

definition train_iteration :: "env \<Rightarrow> args \<Rightarrow> int \<Rightarrow> train_state \<Rightarrow> outcome" where
  "train_iteration e a i s =
     and_then (and_then (and_then (and_then (and_then
       (discriminator_step e a i s)
       (discriminator_regularize e a i))
       (generator_step e a i))
       (generator_regularize e a i))
       ema_update)
       (report e a i)"

text \<open>
  \<open>for idx in pbar: i = idx + args.start_iter; if i > args.iter: print("Done!"); break\<close>.
\<close>

fun train_loop :: "env \<Rightarrow> args \<Rightarrow> int list \<Rightarrow> train_state \<Rightarrow> outcome" where
  "train_loop e a [] s = (s, None)"
| "train_loop e a (idx # rest) s =
     (let i = idx + args_start_iter a in
      if i > args_iter a then (s\<lparr>events := events s @ [Print ''Done!'']\<rparr>, None)
      else and_then (train_iteration e a i s) (train_loop e a rest))"

text \<open>\<open>range(n)\<close>.\<close>

definition py_range :: "int \<Rightarrow> int list" where
  "py_range n = map int [0..<nat n]"

text \<open>
  Lines 140-178: the directories, the initial values of the loop's variables and the
  fixed sample noise (whose draw raises on a negative size).
\<close>

definition train_init ::
  "args \<Rightarrow> store \<Rightarrow> optimizer \<Rightarrow> optimizer \<Rightarrow> rng \<Rightarrow> outcome" where
  "train_init a st g_opt d_opt g =
     (let s0 = \<lparr>store = st, g_optim = g_opt, d_optim = d_opt, rng = g,
                mean_path_length = Some 0, r1_loss = Some 0, path_loss = Some 0,
                path_lengths = [Some 0], mean_path_length_avg = Some 0,
                loss_dict = Map.empty,
                ada_aug_p = (if args_augment_p a > 0 then args_augment_p a else 0),
                r_t_stat = 0,
                events = [Makedirs (args_expr_dir a),
                          Makedirs (args_expr_dir a @ ''/checkpoints''),
                          Makedirs (args_expr_dir a @ ''/sample'')]\<rparr>
      in case randn [args_n_sample a, args_latent a] g of
           Inl err \<Rightarrow> (s0, Some err)
         | Inr (sample_z, g') \<Rightarrow> (s0\<lparr>rng := g'\<rparr>, None))"

definition train ::
  "env \<Rightarrow> args \<Rightarrow> store \<Rightarrow> optimizer \<Rightarrow> optimizer \<Rightarrow> rng \<Rightarrow> outcome" where
  "train e a st g_opt d_opt g =
     and_then (train_init a st g_opt d_opt g) (train_loop e a (py_range (args_iter a)))"

section \<open>Program set-up (\<open>__main__\<close>, lines 431-586)\<close>

text \<open>
  \<open>model.load_state_dict(sd, strict)\<close>: the data of every parameter whose name is in
  \<open>sd\<close> is replaced. A size mismatch always raises; under \<open>strict\<close> so does a name
  of the model missing from \<open>sd\<close> and a name of \<open>sd\<close> unknown to the model.
\<close>

definition load_state_dict :: "net \<Rightarrow> weights \<Rightarrow> bool \<Rightarrow> py_error + net" where
  "load_state_dict n sd strict =
     (if list_ex (\<lambda>(k, p). case map_of sd k of
                               Some t \<Rightarrow> length t \<noteq> length (pdata p)
                             | None \<Rightarrow> strict) n
         \<or> (strict \<and> list_ex (\<lambda>(k, t). map_of n k = None) sd)
      then Inl RuntimeError
      else Inr (map (\<lambda>(k, p). case map_of sd k of
                                  Some t \<Rightarrow> (k, p\<lparr>pdata := t\<rparr>)
                                | None \<Rightarrow> (k, p)) n))"

text \<open>\<open>torch.load(path)\<close> on the files present.\<close>

definition torch_load :: "(string \<rightharpoonup> checkpoint) \<Rightarrow> string \<Rightarrow> py_error + checkpoint" where
  "torch_load fs path = (case fs path of None \<Rightarrow> Inl (FileNotFoundError path) | Some c \<Rightarrow> Inr c)"

text \<open>
  Lines 447-465. An architecture other than the two known ones imports nothing, and
  the first use of \<open>Generator\<close> is a \<open>NameError\<close>. The freshly built networks are the
  given store; \<open>accumulate(g_ema, generator, 0)\<close> follows.
\<close>

definition teacher_setup :: "args \<Rightarrow> store \<Rightarrow> py_error + store" where
  "teacher_setup a st =
     (if args_arch a = ''stylegan2'' \<or> args_arch a = ''swagan'' then
        (case accumulate (st G_ema) (st Generator) 0 of
           (n, None) \<Rightarrow> Inr (st(G_ema := n))
         | (n, Some err) \<Rightarrow> Inl err)
      else Inl (NameError ''Generator''))"

text \<open>Lines 467-468: \<open>args.g_reg_every / (args.g_reg_every + 1)\<close>.\<close>

definition reg_ratio :: "int \<Rightarrow> py_error + real" where
  "reg_ratio n =
     (if n + 1 = 0 then Inl ZeroDivisionError else Inr (real_of_int n / real_of_int (n + 1)))"

text \<open>
  \<open>0 ** x\<close> for the ratio \<open>x\<close> above, which is never negative for an integer \<open>n\<close>.
\<close>

definition zero_pow :: "real \<Rightarrow> real" where
  "zero_pow x = (if x = 0 then 1 else 0)"

text \<open>
  Lines 475-479 and 485-489: \<open>optim.Adam(model.parameters(), lr=args.lr * ratio,
  betas=(0 ** ratio, 0.99 ** ratio))\<close>. The optimizer holds the parameters of the
  network it is given and of no other. (Adam's own checks of its arguments are not
  modelled.)
\<close>

definition adam :: "model_id \<Rightarrow> real \<Rightarrow> real \<Rightarrow> optimizer" where
  "adam m lr ratio =
     \<lparr>opt_params = m, opt_lr = lr * ratio,
      opt_betas = (zero_pow ratio, (99 / 100) powr ratio), opt_state = []\<rparr>"

record main_state =
  ms_args :: args
  ms_store :: store
  ms_g_optim :: optimizer
  ms_d_optim :: optimizer

text \<open>
  Lines 498-520, \<open>if args.ckpt is not None\<close>. The result also tells whether the
  variable \<open>ckpt\<close> is bound afterwards, and to what.
\<close>

definition style_dict :: "net \<Rightarrow> weights" where
  "style_dict n = filter (\<lambda>(k, v). str_contains k ''style'') (state_dict n)"

definition load_teacher ::
  "args \<Rightarrow> (string \<rightharpoonup> checkpoint) \<Rightarrow> store \<Rightarrow> py_error + (store \<times> checkpoint option)" where
  "load_teacher a fs st =
     (case args_ckpt a of
        None \<Rightarrow> Inr (st, None)
      | Some path \<Rightarrow>
          bind_err (torch_load fs path) (\<lambda>ckpt.
          bind_err (load_state_dict (st Generator) (ck_g ckpt) False) (\<lambda>g.
          bind_err (load_state_dict (st Discriminator) (ck_d ckpt) True) (\<lambda>d.
          bind_err (load_state_dict (st G_ema) (ck_g_ema ckpt) False) (\<lambda>ge.
            let st1 = st(Generator := g, Discriminator := d, G_ema := ge) in
            if args_inherit_style a then
              bind_err (load_state_dict (st1 Student_generator)
                          (style_dict (st1 Generator)) False) (\<lambda>sg.
              bind_err (load_state_dict (st1 Student_g_ema)
                          (style_dict (st1 G_ema)) False) (\<lambda>se.
                Inr (st1(Student_generator := sg, Student_g_ema := se), Some ckpt)))
            else Inr (st1, Some ckpt))))))"

text \<open>
  Lines 523-535, \<open>if args.ckpt_s is not None\<close>. The file is loaded into \<open>ckpt_s\<close> and
  the start iteration is parsed from its name (a \<open>ValueError\<close> is swallowed). Lines
  531-532 then index the variable \<open>ckpt\<close>, not \<open>ckpt_s\<close>: the weights of the student
  generator and of its EMA come from the teacher's checkpoint, and when no teacher
  checkpoint was given the name \<open>ckpt\<close> is unbound. Lines 534-535 read the optimizer
  states from \<open>ckpt_s\<close>.
\<close>

definition resume_student ::
  "(string \<rightharpoonup> checkpoint) \<Rightarrow> checkpoint option \<Rightarrow> main_state \<Rightarrow> py_error + main_state" where
  "resume_student fs ckpt ms =
     (case args_ckpt_s (ms_args ms) of
        None \<Rightarrow> Inr ms
      | Some path \<Rightarrow>
          bind_err (torch_load fs path) (\<lambda>ckpt_s.
            let a1 = (case py_int (fst (splitext (basename path))) of
                        Inl err \<Rightarrow> ms_args ms
                      | Inr n \<Rightarrow> (ms_args ms)\<lparr>args_start_iter := n\<rparr>)
            in case ckpt of
                 None \<Rightarrow> Inl (NameError ''ckpt'')
               | Some c \<Rightarrow>
                   bind_err (load_state_dict (ms_store ms Student_generator) (ck_g c) True) (\<lambda>sg.
                   bind_err (load_state_dict (ms_store ms Student_g_ema) (ck_g_ema c) True) (\<lambda>se.
                     Inr \<lparr>ms_args = a1,
                          ms_store = (ms_store ms)(Student_generator := sg, Student_g_ema := se),
                          ms_g_optim = (ms_g_optim ms)\<lparr>opt_state := ck_g_optim ckpt_s\<rparr>,
                          ms_d_optim = (ms_d_optim ms)\<lparr>opt_state := ck_d_optim ckpt_s\<rparr>\<rparr>))))"

text \<open>
  Lines 431-535 in order. \<open>n_gpu\<close> is the environment's \<open>WORLD_SIZE\<close> (1 when unset),
  the store holds the six networks as their constructors return them.
\<close>

definition main_setup ::
  "int \<Rightarrow> args \<Rightarrow> (string \<rightharpoonup> checkpoint) \<Rightarrow> store \<Rightarrow> py_error + main_state" where
  "main_setup n_gpu a0 fs st0 =
     (let a = a0\<lparr>args_latent := 512, args_start_iter := 0, args_distributed := n_gpu > 1\<rparr> in
      bind_err (teacher_setup a st0) (\<lambda>st1.
      bind_err (reg_ratio (args_g_reg_every a)) (\<lambda>g_reg_ratio.
      bind_err (reg_ratio (args_d_reg_every a)) (\<lambda>d_reg_ratio.
        case accumulate (st1 Student_g_ema) (st1 Student_generator) 0 of
          (n, Some err) \<Rightarrow> Inl err
        | (n, None) \<Rightarrow>
            bind_err (load_teacher a fs (st1(Student_g_ema := n))) (\<lambda>(st2, ckpt).
              resume_student fs ckpt
                \<lparr>ms_args = a, ms_store = st2,
                 ms_g_optim = adam Student_generator (args_lr a) g_reg_ratio,
                 ms_d_optim = adam Student_discriminator (args_lr a) d_reg_ratio\<rparr>)))))"

text \<open>
  The whole program: the set-up, then \<open>train\<close> on what it built (lines 537-584 wrap the
  networks for distributed training and open the dataset; they change no parameter).
\<close>

definition main ::
  "env \<Rightarrow> int \<Rightarrow> args \<Rightarrow> (string \<rightharpoonup> checkpoint) \<Rightarrow> store \<Rightarrow> rng \<Rightarrow> py_error + outcome" where
  "main e n_gpu a fs st g =
     bind_err (main_setup n_gpu a fs st) (\<lambda>ms.
       Inr (train e (ms_args ms) (ms_store ms) (ms_g_optim ms) (ms_d_optim ms) g))"

section \<open>Reading the trace of a run\<close>




text \<open>Whether an event writes a file.\<close>

fun writes_file :: "event \<Rightarrow> bool" where
  "writes_file (Save_image path) = True"
| "writes_file (Torch_save path ck) = True"
| "writes_file ev = False"

section \<open>A small configuration\<close>

text \<open>
  One concrete set of collaborators, options and networks, on which the theorems
  below are exercised: a single process of rank zero, networks of one parameter
  \<open>w\<close> (1 in the teacher's networks, 0 in the student's), an R1 penalty that
  evaluates to the iteration index, and an optimizer update that lowers every
  element by the learning rate.
\<close>

definition example_env :: env where
  "example_env =
     \<lparr>get_rank = 0, get_world_size = 1, wandb_imported = False,
      reduce_values = (\<lambda>k v. v), reduce_sum_value = (\<lambda>v. v),
      d_forward = (\<lambda>i noise st p. (Some 1, Some 0, Some 0)),
      ada_tune = (\<lambda>i st. (0, 0)),
      r1_forward = (\<lambda>i st p. Some (real_of_int i)),
      g_forward = (\<lambda>i noise st p. (Some 1, [], [], Some 0)),
      path_forward = (\<lambda>i noise st. [[[0]]]),
      backward_grad = (\<lambda>ph i st m k. [0]),
      adam_update = (\<lambda>opt k d g. map (\<lambda>x. x - opt_lr opt) d),
      adam_state = (\<lambda>opt n. [])\<rparr>"

definition example_args :: args where
  "example_args =
     \<lparr>args_arch = ''stylegan2'', args_iter = 32, args_batch = 1, args_n_sample = 1,
      args_r1 = 10, args_path_regularize = 2, args_path_batch_shrink = 2,
      args_d_reg_every = 16, args_g_reg_every = 4, args_mixing = 9 / 10,
      args_ckpt = None, args_ckpt_s = None, args_lr = 2 / 1000, args_wandb = False,
      args_augment = False, args_augment_p = 0, args_kernel_alignment = False,
      args_perc_loss = False, args_inherit_style = False, args_expr_dir = ''./expr'',
      args_latent = 1, args_start_iter = 0, args_distributed = False\<rparr>"

definition example_net :: "real \<Rightarrow> net" where
  "example_net x = [(''w'', \<lparr>pdata = [x], requires_grad_flag = True, pgrad = None\<rparr>)]"

definition example_store :: store where
  "example_store =
     (\<lambda>m. example_net (if m \<in> {Generator, Discriminator, G_ema} then 1 else 0))"

definition example_rng :: rng where
  "example_rng = \<lparr>uniform_stream = (\<lambda>i. 1 / 2), normal_stream = (\<lambda>i. 0)\<rparr>"

text \<open>
  Two checkpoint files for the small configuration: one saved by the teacher's
  training and one saved by this program at iteration 10000.
\<close>

definition example_teacher_ckpt :: checkpoint where
  "example_teacher_ckpt =
     \<lparr>ck_g = [(''w'', [5])], ck_d = [(''w'', [6])], ck_g_ema = [(''w'', [7])],
      ck_g_optim = [], ck_d_optim = [], ck_args = example_args, ck_ada_aug_p = 0\<rparr>"

definition example_student_ckpt :: checkpoint where
  "example_student_ckpt =
     \<lparr>ck_g = [(''w'', [8])], ck_d = [(''w'', [3])], ck_g_ema = [(''w'', [9])],
      ck_g_optim = [(''w'', [1])], ck_d_optim = [(''w'', [2])],
      ck_args = example_args, ck_ada_aug_p = 0\<rparr>"

definition example_files :: "string \<rightharpoonup> checkpoint" where
  "example_files =
     [''teacher.pt'' \<mapsto> example_teacher_ckpt,
      ''expr/checkpoints/010000.pt'' \<mapsto> example_student_ckpt]"

section \<open>Verified properties\<close>

subsection \<open>EMA accumulator\<close>






lemma accumulate_error_find:
  assumes "\<forall>(k, p) \<in> set model1.
             \<forall>q. map_of model2 k = Some q \<longrightarrow> length (pdata q) = length (pdata p)"
  shows "snd (accumulate model1 model2 decay) =
     map_option KeyError (find (\<lambda>k. map_of model2 k = None) (map fst model1))"
  using assms
proof (induction model1)
  case Nil
  then show ?case by simp
next
  case (Cons a model1)
  obtain k p where a: "a = (k, p)" by (cases a)
  show ?case
  proof (cases "map_of model2 k")
    case None
    then show ?thesis using a by simp
  next
    case (Some q)
    then have len: "length (pdata q) = length (pdata p)" using Cons.prems a by auto
    have ih: "snd (accumulate model1 model2 decay) =
       map_option KeyError (find (\<lambda>k. map_of model2 k = None) (map fst model1))"
      using Cons by simp
    show ?thesis using a Some len ih
      by (simp add: add_inplace_def mul_inplace_def split_def)
  qed
qed

lemma accumulate_source_agree:
  assumes "\<forall>k \<in> fst ` set model1. map_of model2 k = map_of model2' k"
  shows "accumulate model1 model2 decay = accumulate model1 model2' decay"
  using assms
proof (induction model1)
  case Nil
  then show ?case by simp
next
  case (Cons a model1)
  obtain k p where a: "a = (k, p)" by (cases a)
  have ih: "accumulate model1 model2 decay = accumulate model1 model2' decay"
    using Cons by simp
  have hd: "map_of model2 k = map_of model2' k" using Cons.prems a by simp
  show ?case unfolding a accumulate.simps ih hd by (rule refl)
qed

text \<open>
  Claim C8: \<open>accumulate\<close> walks the names of the target and looks each one up in the
  source. With the paired parameters of equal size (so that no shape error comes
  first): if every target name is in the source, nothing is raised; if some target name
  is missing from the source, the call raises \<open>KeyError\<close> on a target-only name instead
  of skipping it; and an entry of the source under a name the target does not have
  changes nothing.
\<close>

theorem accumulate_requires_target_names_in_source:
  assumes sizes: "\<forall>(k, p) \<in> set model1.
             \<forall>q. map_of model2 k = Some q \<longrightarrow> length (pdata q) = length (pdata p)"
  shows "(fst ` set model1 \<subseteq> fst ` set model2 \<longrightarrow>
            snd (accumulate model1 model2 decay) = None)
       \<and> (\<not> fst ` set model1 \<subseteq> fst ` set model2 \<longrightarrow>
            (\<exists>k. k \<in> fst ` set model1 \<and> k \<notin> fst ` set model2
               \<and> snd (accumulate model1 model2 decay) = Some (KeyError k)))
       \<and> (k' \<notin> fst ` set model1 \<longrightarrow>
            accumulate model1 ((k', q') # model2) decay = accumulate model1 model2 decay)"
proof (intro conjI impI)
  assume sub: "fst ` set model1 \<subseteq> fst ` set model2"
  have "find (\<lambda>k. map_of model2 k = None) (map fst model1) = None"
    unfolding find_None_iff using sub by (auto simp: map_of_eq_None_iff)
  then show "snd (accumulate model1 model2 decay) = None"
    using accumulate_error_find[OF sizes] by simp
next
  assume nsub: "\<not> fst ` set model1 \<subseteq> fst ` set model2"
  then have "\<exists>k \<in> set (map fst model1). map_of model2 k = None"
    by (auto simp: map_of_eq_None_iff)
  then obtain k where k: "find (\<lambda>k. map_of model2 k = None) (map fst model1) = Some k"
    by (cases "find (\<lambda>k. map_of model2 k = None) (map fst model1)")
       (auto simp: find_None_iff)
  then have "k \<in> fst ` set model1" "k \<notin> fst ` set model2"
    by (auto simp: find_Some_iff map_of_eq_None_iff)
  moreover have "snd (accumulate model1 model2 decay) = Some (KeyError k)"
    using accumulate_error_find[OF sizes] k by simp
  ultimately show "\<exists>k. k \<in> fst ` set model1 \<and> k \<notin> fst ` set model2
               \<and> snd (accumulate model1 model2 decay) = Some (KeyError k)" by blast
next
  assume "k' \<notin> fst ` set model1"
  then show "accumulate model1 ((k', q') # model2) decay = accumulate model1 model2 decay"
    by (intro accumulate_source_agree) auto
qed

theorem accumulate_requires_target_names_in_source_witness:
  "snd (accumulate
          [(''w'', \<lparr>pdata = [1], requires_grad_flag = True, pgrad = None\<rparr>)]
          [(''w'', \<lparr>pdata = [3], requires_grad_flag = True, pgrad = None\<rparr>),
           (''extra'', \<lparr>pdata = [5, 6], requires_grad_flag = True, pgrad = None\<rparr>)] (1/2)) = None
   \<and> snd (accumulate
          [(''w'', \<lparr>pdata = [1], requires_grad_flag = True, pgrad = None\<rparr>),
           (''b'', \<lparr>pdata = [2], requires_grad_flag = True, pgrad = None\<rparr>)]
          [(''w'', \<lparr>pdata = [3], requires_grad_flag = True, pgrad = None\<rparr>)] (1/2))
       = Some (KeyError ''b'')
   \<and> accumulate
          [(''w'', \<lparr>pdata = [1], requires_grad_flag = True, pgrad = None\<rparr>)]
          [(''extra'', \<lparr>pdata = [5, 6], requires_grad_flag = True, pgrad = None\<rparr>),
           (''w'', \<lparr>pdata = [3], requires_grad_flag = True, pgrad = None\<rparr>)] (1/2)
       = accumulate
          [(''w'', \<lparr>pdata = [1], requires_grad_flag = True, pgrad = None\<rparr>)]
          [(''w'', \<lparr>pdata = [3], requires_grad_flag = True, pgrad = None\<rparr>)] (1/2)"
  using accumulate_requires_target_names_in_source
    [of "[(''w'', \<lparr>pdata = [1], requires_grad_flag = True, pgrad = None\<rparr>)]"
        "[(''w'', \<lparr>pdata = [3], requires_grad_flag = True, pgrad = None\<rparr>),
          (''extra'', \<lparr>pdata = [5, 6], requires_grad_flag = True, pgrad = None\<rparr>)]"
        "1/2" "''none''" "\<lparr>pdata = [], requires_grad_flag = True, pgrad = None\<rparr>"]
    accumulate_requires_target_names_in_source
    [of "[(''w'', \<lparr>pdata = [1], requires_grad_flag = True, pgrad = None\<rparr>),
          (''b'', \<lparr>pdata = [2], requires_grad_flag = True, pgrad = None\<rparr>)]"
        "[(''w'', \<lparr>pdata = [3], requires_grad_flag = True, pgrad = None\<rparr>)]"
        "1/2" "''none''" "\<lparr>pdata = [], requires_grad_flag = True, pgrad = None\<rparr>"]
    accumulate_requires_target_names_in_source
    [of "[(''w'', \<lparr>pdata = [1], requires_grad_flag = True, pgrad = None\<rparr>)]"
        "[(''w'', \<lparr>pdata = [3], requires_grad_flag = True, pgrad = None\<rparr>)]"
        "1/2" "''extra''" "\<lparr>pdata = [5, 6], requires_grad_flag = True, pgrad = None\<rparr>"]
  by (simp add: add_inplace_def mul_inplace_def)

subsection \<open>Kernel alignment\<close>


lemma square_sum_nonneg: "0 \<le> square_sum A"
  unfolding square_sum_def by (rule sum_list_nonneg) auto

lemma sum_list_squares_zero_iff:
  "sum_list (map (\<lambda>a. a\<^sup>2) xs) = 0 \<longleftrightarrow> (\<forall>a \<in> set xs. a = (0::real))"
proof (induction xs)
  case Nil
  then show ?case by simp
next
  case (Cons x xs)
  have "0 \<le> sum_list (map (\<lambda>a. a\<^sup>2) xs)" by (rule sum_list_nonneg) auto
  then show ?case using Cons by (auto simp: add_nonneg_eq_0_iff)
qed

lemma square_sum_zero_iff:
  "square_sum A = 0 \<longleftrightarrow> (\<forall>r \<in> set A. \<forall>a \<in> set r. a = 0)"
proof -
  have "square_sum A = sum_list (map (\<lambda>a. a\<^sup>2) (concat A))"
    by (simp add: square_sum_def map_concat)
  then show ?thesis by (auto simp: sum_list_squares_zero_iff)
qed

lemma gram_zero_if_zero:
  assumes "\<forall>r \<in> set X. \<forall>a \<in> set r. a = 0"
  shows "\<forall>r \<in> set (gram X). \<forall>a \<in> set r. a = 0"
proof -
  have row: "\<forall>a \<in> set r. a = 0 \<Longrightarrow> dot r s = 0" for r s :: "real list"
    unfolding dot_def
    by (induction r arbitrary: s) (auto simp: zip_Cons1 split: list.splits)
  show ?thesis using assms by (auto simp: gram_def row)
qed



text \<open>
  Claim C9: the division in \<open>KA\<close> is unguarded. For two tensors of the same non-empty
  batch size the result is the non-finite value of a division by zero exactly when the
  Gram matrix of \<open>X\<close> or of \<open>Y\<close> is the zero matrix, and in particular whenever \<open>X\<close> or \<open>Y\<close>
  flattens to the all-zero matrix; so the result is a number only if both Gram
  matrices are nonzero.
\<close>

theorem KA_zero_gram_is_nan:
  assumes "X \<noteq> []" and "Y \<noteq> []" and "length X = length Y"
  shows "(KA X Y = Inr None \<longleftrightarrow>
            (\<forall>r \<in> set (gram X). \<forall>a \<in> set r. a = 0)
          \<or> (\<forall>r \<in> set (gram Y). \<forall>a \<in> set r. a = 0))
       \<and> ((\<forall>r \<in> set X. \<forall>a \<in> set r. a = 0) \<longrightarrow> KA X Y = Inr None)
       \<and> ((\<forall>r \<in> set Y. \<forall>a \<in> set r. a = 0) \<longrightarrow> KA X Y = Inr None)"
proof -
  let ?sx = "square_sum (gram X)" and ?sy = "square_sum (gram Y)"
  have nn: "0 \<le> ?sx * ?sy" using square_sum_nonneg by simp
  have ka: "KA X Y = Inr (true_divide (mul_sum (gram X) (gram Y)) (sqrt (?sx * ?sy)))"
    using assms nn by (simp add: KA_def view_rows_def pow_half_def Let_def)
  have iff: "KA X Y = Inr None \<longleftrightarrow> ?sx = 0 \<or> ?sy = 0"
    unfolding ka by (simp add: true_divide_def)
  have main: "KA X Y = Inr None \<longleftrightarrow>
            (\<forall>r \<in> set (gram X). \<forall>a \<in> set r. a = 0)
          \<or> (\<forall>r \<in> set (gram Y). \<forall>a \<in> set r. a = 0)"
    unfolding iff square_sum_zero_iff ..
  show ?thesis using main gram_zero_if_zero[of X] gram_zero_if_zero[of Y] by blast
qed

theorem KA_zero_gram_is_nan_witness:
  "KA [[0, 0], [0, 0]] [[1, 2], [3, 4]] = Inr None
   \<and> KA [[1, 2], [3, 4]] [[0, 0], [0, 0]] = Inr None
   \<and> KA [[1, 2], [3, 4]] [[1, 2], [3, 4]] \<noteq> Inr None"
  using KA_zero_gram_is_nan[of "[[0, 0], [0, 0]]" "[[1, 2], [3, 4]]"]
        KA_zero_gram_is_nan[of "[[1, 2], [3, 4]]" "[[0, 0], [0, 0]]"]
        KA_zero_gram_is_nan[of "[[1, 2], [3, 4]]" "[[1, 2], [3, 4]]"]
  by (simp add: gram_def dot_def)

subsection \<open>Noise sampler\<close>

lemma make_noise_one:
  assumes "0 \<le> b" "0 \<le> d"
  shows "\<exists>t g'. make_noise b d 1 g = Inr (Tensor t, g') \<and> shape t = [nat b, nat d]
          \<and> length (entries t) = nat b * nat d"
  using assms by (simp add: make_noise_def randn_def Let_def)

lemma make_noise_two:
  assumes "0 \<le> b" "0 \<le> d"
  shows "\<exists>t1 t2 g'. make_noise b d 2 g = Inr (Seq [Tensor t1, Tensor t2], g')
          \<and> shape t1 = [nat b, nat d] \<and> shape t2 = [nat b, nat d]
          \<and> length (entries t1) = nat b * nat d \<and> length (entries t2) = nat b * nat d"
proof -
  have up: "[0..<2] = [0, Suc 0]" by (simp add: upt_rec)
  show ?thesis using assms
    by (simp add: make_noise_def randn_def unbind0_def Let_def up)
qed

text \<open>
  Claim C7: for every batch size \<open>b\<close> and latent dimension \<open>d\<close> (non-negative integers),
  \<open>mixing_noise\<close> with probability 0 returns a one-element sequence holding a tensor of
  shape \<open>(b, d)\<close>, and with probability 1 it returns a two-element sequence of tensors
  of shape \<open>(b, d)\<close>, whatever \<open>random.random()\<close> draws from its range \<open>[0, 1)\<close>.
\<close>

theorem mixing_noise_lengths:
  assumes "0 \<le> b" "0 \<le> d"
  shows "(\<exists>t g'. mixing_noise b d 0 g = Inr (Seq [Tensor t], g')
            \<and> shape t = [nat b, nat d] \<and> length (entries t) = nat b * nat d)
       \<and> (uniform_stream g 0 < 1 \<longrightarrow>
            (\<exists>t1 t2 g'. mixing_noise b d 1 g = Inr (Seq [Tensor t1, Tensor t2], g')
               \<and> shape t1 = [nat b, nat d] \<and> shape t2 = [nat b, nat d]
               \<and> length (entries t1) = nat b * nat d
               \<and> length (entries t2) = nat b * nat d))"
proof (intro conjI impI)
  obtain t g' where "make_noise b d 1 g = Inr (Tensor t, g')" "shape t = [nat b, nat d]"
     "length (entries t) = nat b * nat d"
    using make_noise_one[OF assms] by blast
  then show "\<exists>t g'. mixing_noise b d 0 g = Inr (Seq [Tensor t], g')
            \<and> shape t = [nat b, nat d] \<and> length (entries t) = nat b * nat d"
    by (simp add: mixing_noise_def)
next
  assume u: "uniform_stream g 0 < 1"
  let ?g1 = "g\<lparr>uniform_stream := (\<lambda>i. uniform_stream g (Suc i))\<rparr>"
  have "mixing_noise b d 1 g = make_noise b d 2 ?g1"
    using u by (simp add: mixing_noise_def Let_def)
  then show "\<exists>t1 t2 g'. mixing_noise b d 1 g = Inr (Seq [Tensor t1, Tensor t2], g')
               \<and> shape t1 = [nat b, nat d] \<and> shape t2 = [nat b, nat d]
               \<and> length (entries t1) = nat b * nat d
               \<and> length (entries t2) = nat b * nat d"
    using make_noise_two[OF assms, of ?g1] by simp
qed

theorem mixing_noise_lengths_witness:
  "(\<exists>t g'. mixing_noise 2 3 0
              \<lparr>uniform_stream = (\<lambda>i. 1 / 2), normal_stream = (\<lambda>i. real i)\<rparr>
            = Inr (Seq [Tensor t], g') \<and> shape t = [2, 3] \<and> length (entries t) = 6)
   \<and> (\<exists>t1 t2 g'. mixing_noise 2 3 1
              \<lparr>uniform_stream = (\<lambda>i. 1 / 2), normal_stream = (\<lambda>i. real i)\<rparr>
            = Inr (Seq [Tensor t1, Tensor t2], g')
          \<and> shape t1 = [2, 3] \<and> shape t2 = [2, 3]
          \<and> length (entries t1) = 6 \<and> length (entries t2) = 6)"
  using mixing_noise_lengths
    [of 2 3 "\<lparr>uniform_stream = (\<lambda>i. 1 / 2), normal_stream = (\<lambda>i. real i)\<rparr>"]
  by simp

subsection \<open>Path-length regularisation\<close>









subsection \<open>The training loop leaves the teacher alone\<close>

lemma state_dict_requires_grad: "state_dict (requires_grad n f) = state_dict n"
  by (induction n) (auto simp: state_dict_def requires_grad_def)

lemma state_dict_zero_grad: "state_dict (zero_grad n) = state_dict n"
  by (induction n) (auto simp: state_dict_def zero_grad_def)

lemma state_dict_backward: "state_dict (backward e ph i graph st m) = state_dict (st m)"
proof -
  have "state_dict (map (\<lambda>(k, p). if requires_grad_flag p
                              then (k, accumulate_grad p (f k))
                              else (k, p)) n) = state_dict n" for f n
    by (induction n) (auto simp: state_dict_def accumulate_grad_def)
  then show ?thesis by (simp add: backward_def)
qed

lemma optim_step_frame:
  assumes "optim_step e opt st = (st', opt')"
  shows "opt_params opt' = opt_params opt" and "m \<noteq> opt_params opt \<Longrightarrow> st' m = st m"
  using assms by (auto simp: optim_step_def Let_def)

lemma discriminator_step_frame:
  assumes "discriminator_step e a i s = (s', err)"
    and "opt_params (d_optim s) = Student_discriminator"
    and "m \<noteq> Student_discriminator"
  shows "state_dict (store s' m) = state_dict (store s m)
       \<and> opt_params (g_optim s') = opt_params (g_optim s)
       \<and> opt_params (d_optim s') = opt_params (d_optim s)"
  using assms
  by (auto simp: discriminator_step_def Let_def state_dict_requires_grad state_dict_backward
        state_dict_zero_grad
      split: sum.splits prod.splits dest: optim_step_frame)

lemma discriminator_regularize_frame:
  assumes "discriminator_regularize e a i s = (s', err)"
    and "opt_params (d_optim s) = Student_discriminator"
    and "m \<noteq> Student_discriminator"
  shows "state_dict (store s' m) = state_dict (store s m)
       \<and> opt_params (g_optim s') = opt_params (g_optim s)
       \<and> opt_params (d_optim s') = opt_params (d_optim s)"
  using assms
  by (auto simp: discriminator_regularize_def Let_def state_dict_backward state_dict_zero_grad
      split: if_splits prod.splits dest: optim_step_frame)

lemma generator_step_frame:
  assumes "generator_step e a i s = (s', err)"
    and "opt_params (g_optim s) = Student_generator"
    and "m \<noteq> Student_generator"
  shows "state_dict (store s' m) = state_dict (store s m)
       \<and> opt_params (g_optim s') = opt_params (g_optim s)
       \<and> opt_params (d_optim s') = opt_params (d_optim s)"
  using assms
  by (auto simp: generator_step_def Let_def state_dict_requires_grad state_dict_backward
        state_dict_zero_grad
      split: sum.splits prod.splits if_splits dest: optim_step_frame)

lemma generator_regularize_frame:
  assumes "generator_regularize e a i s = (s', err)"
    and "opt_params (g_optim s) = Student_generator"
    and "m \<noteq> Student_generator"
  shows "state_dict (store s' m) = state_dict (store s m)
       \<and> opt_params (g_optim s') = opt_params (g_optim s)
       \<and> opt_params (d_optim s') = opt_params (d_optim s)"
  using assms
  by (auto simp: generator_regularize_def and_then_def Let_def state_dict_backward
        state_dict_zero_grad
      split: sum.splits prod.splits if_splits option.splits dest: optim_step_frame)

lemma ema_update_frame:
  assumes "ema_update s = (s', err)" and "m \<noteq> Student_g_ema"
  shows "store s' m = store s m
       \<and> g_optim s' = g_optim s \<and> d_optim s' = d_optim s"
  using assms by (auto simp: ema_update_def split: prod.splits)

lemma report_frame:
  assumes "report e a i s = (s', err)"
  shows "store s' = store s \<and> g_optim s' = g_optim s \<and> d_optim s' = d_optim s"
  using assms by (auto simp: report_def Let_def split: sum.splits if_splits)

lemma train_iteration_frame:
  assumes run: "train_iteration e a i s = (s', err)"
    and g: "opt_params (g_optim s) = Student_generator"
    and d: "opt_params (d_optim s) = Student_discriminator"
    and m: "m \<noteq> Student_generator" "m \<noteq> Student_discriminator" "m \<noteq> Student_g_ema"
  shows "state_dict (store s' m) = state_dict (store s m)
       \<and> opt_params (g_optim s') = Student_generator
       \<and> opt_params (d_optim s') = Student_discriminator"
proof -
  let ?P = "\<lambda>t. state_dict (store t m) = state_dict (store s m)
       \<and> opt_params (g_optim t) = Student_generator
       \<and> opt_params (d_optim t) = Student_discriminator"
  obtain s1 e1 where r1: "discriminator_step e a i s = (s1, e1)" by (cases "discriminator_step e a i s")
  have p1: "?P s1" using discriminator_step_frame[OF r1 d m(2)] g d by simp
  obtain s2 e2 where r2: "and_then (s1, e1) (discriminator_regularize e a i) = (s2, e2)"
    by (cases "and_then (s1, e1) (discriminator_regularize e a i)")
  have p2: "?P s2"
    using r2 p1 discriminator_regularize_frame[of e a i s1 s2 e2 m] m(2)
    by (cases e1) (auto simp: and_then_def)
  obtain s3 e3 where r3: "and_then (s2, e2) (generator_step e a i) = (s3, e3)"
    by (cases "and_then (s2, e2) (generator_step e a i)")
  have p3: "?P s3"
    using r3 p2 generator_step_frame[of e a i s2 s3 e3 m] m(1)
    by (cases e2) (auto simp: and_then_def)
  obtain s4 e4 where r4: "and_then (s3, e3) (generator_regularize e a i) = (s4, e4)"
    by (cases "and_then (s3, e3) (generator_regularize e a i)")
  have p4: "?P s4"
    using r4 p3 generator_regularize_frame[of e a i s3 s4 e4 m] m(1)
    by (cases e3) (auto simp: and_then_def)
  obtain s5 e5 where r5: "and_then (s4, e4) ema_update = (s5, e5)"
    by (cases "and_then (s4, e4) ema_update")
  have p5: "?P s5"
    using r5 p4 ema_update_frame[of s4 s5 e5 m] m(3)
    by (cases e4) (auto simp: and_then_def)
  have r6: "and_then (s5, e5) (report e a i) = (s', err)"
    using run r1 r2 r3 r4 r5 by (simp add: train_iteration_def)
  show ?thesis
    using r6 p5 report_frame[of e a i s5 s' err]
    by (cases e5) (auto simp: and_then_def)
qed

lemma train_loop_frame:
  assumes "train_loop e a idxs s = (s', err)"
    and "opt_params (g_optim s) = Student_generator"
    and "opt_params (d_optim s) = Student_discriminator"
    and "m \<noteq> Student_generator" "m \<noteq> Student_discriminator" "m \<noteq> Student_g_ema"
  shows "state_dict (store s' m) = state_dict (store s m)"
  using assms
proof (induction idxs arbitrary: s)
  case Nil
  then show ?case by simp
next
  case (Cons idx rest)
  show ?case
  proof (cases "idx + args_start_iter a > args_iter a")
    case True
    then show ?thesis using Cons.prems(1) by (auto simp: Let_def)
  next
    case False
    obtain s1 e1 where it: "train_iteration e a (idx + args_start_iter a) s = (s1, e1)"
      by (cases "train_iteration e a (idx + args_start_iter a) s")
    note fr = train_iteration_frame[OF it Cons.prems(2,3,4,5,6)]
    show ?thesis
    proof (cases e1)
      case None
      then have "train_loop e a rest s1 = (s', err)"
        using Cons.prems(1) False it by (simp add: Let_def and_then_def)
      from Cons.IH[OF this] fr Cons.prems(4,5,6) show ?thesis by simp
    next
      case (Some x)
      then have "s' = s1" using Cons.prems(1) False it by (simp add: Let_def and_then_def)
      then show ?thesis using fr by simp
    qed
  qed
qed

lemma train_frame:
  assumes "train e a st g_opt d_opt g = (s', err)"
    and "opt_params g_opt = Student_generator"
    and "opt_params d_opt = Student_discriminator"
    and "m \<noteq> Student_generator" "m \<noteq> Student_discriminator" "m \<noteq> Student_g_ema"
  shows "state_dict (store s' m) = state_dict (st m)"
proof -
  obtain s0 e0 where init: "train_init a st g_opt d_opt g = (s0, e0)"
    by (cases "train_init a st g_opt d_opt g")
  then have s0: "store s0 = st" "g_optim s0 = g_opt" "d_optim s0 = d_opt"
    by (auto simp: train_init_def Let_def split: sum.splits)
  show ?thesis
  proof (cases e0)
    case None
    then have "train_loop e a (py_range (args_iter a)) s0 = (s', err)"
      using assms(1) init by (simp add: train_def and_then_def)
    from train_loop_frame[OF this] s0 assms(2-) show ?thesis by simp
  next
    case (Some x)
    then have "s' = s0" using assms(1) init by (simp add: train_def and_then_def)
    then show ?thesis using s0 by simp
  qed
qed

lemma bind_err_Inr:
  "bind_err r f = Inr v \<Longrightarrow> \<exists>x. r = Inr x \<and> f x = Inr v"
  by (cases r) (simp_all add: bind_err_def)

lemma resume_student_optimizers:
  assumes "resume_student fs ckpt ms = Inr ms'"
  shows "opt_params (ms_g_optim ms') = opt_params (ms_g_optim ms)
       \<and> opt_params (ms_d_optim ms') = opt_params (ms_d_optim ms)"
  using assms
  by (auto simp: resume_student_def Let_def split: option.splits dest!: bind_err_Inr)

lemma main_setup_optimizers:
  assumes "main_setup n_gpu a fs st = Inr ms"
  shows "opt_params (ms_g_optim ms) = Student_generator
       \<and> opt_params (ms_d_optim ms) = Student_discriminator"
  using assms
  by (auto simp: main_setup_def Let_def adam_def split: prod.splits option.splits
           dest!: bind_err_Inr resume_student_optimizers)

text \<open>
  Claim C4: in a run of the program the values of the teacher generator's parameters
  are never modified. The generator optimizer that the set-up builds holds the
  student generator's parameters and the discriminator optimizer the student
  discriminator's; every \<open>step()\<close> of the loop is a step of one of the two, and the
  EMA update writes the student's EMA network. So whatever the collaborators return,
  and whether the loop ends normally or by an exception, the data of the teacher
  generator after \<open>train\<close> equals its data when \<open>train\<close> was entered (although line
  261 makes the teacher's parameters require gradients and \<open>backward()\<close> may write
  their \<open>.grad\<close>).
\<close>

theorem teacher_generator_never_updated:
  assumes "main e n_gpu a fs st g = Inr (s', err)"
  shows "\<exists>ms. main_setup n_gpu a fs st = Inr ms
          \<and> opt_params (ms_g_optim ms) = Student_generator
          \<and> opt_params (ms_d_optim ms) = Student_discriminator
          \<and> state_dict (store s' Generator) = state_dict (ms_store ms Generator)"
proof -
  from assms obtain ms where ms: "main_setup n_gpu a fs st = Inr ms"
    and run: "train e (ms_args ms) (ms_store ms) (ms_g_optim ms) (ms_d_optim ms) g = (s', err)"
    by (auto simp: main_def dest!: bind_err_Inr)
  note opt = main_setup_optimizers[OF ms]
  have "state_dict (store s' Generator) = state_dict (ms_store ms Generator)"
    using train_frame[OF run] opt by simp
  then show ?thesis using ms opt by blast
qed

lemma example_setup:
  "main_setup 1 example_args Map.empty example_store =
     Inr \<lparr>ms_args = example_args\<lparr>args_latent := 512\<rparr>,
          ms_store = example_store,
          ms_g_optim = adam Student_generator (2 / 1000) (4 / 5),
          ms_d_optim = adam Student_discriminator (2 / 1000) (16 / 17)\<rparr>"
  by (simp add: main_setup_def teacher_setup_def reg_ratio_def load_teacher_def
        resume_student_def bind_err_def example_args_def example_store_def example_net_def
        add_inplace_def mul_inplace_def Let_def fun_eq_iff)

theorem teacher_generator_never_updated_witness:
  "\<exists>s' err. main example_env 1 example_args Map.empty example_store example_rng = Inr (s', err)
      \<and> state_dict (store s' Generator) = [(''w'', [1])]"
proof -
  let ?ms = "\<lparr>ms_args = example_args\<lparr>args_latent := 512\<rparr>,
          ms_store = example_store,
          ms_g_optim = adam Student_generator (2 / 1000) (4 / 5),
          ms_d_optim = adam Student_discriminator (2 / 1000) (16 / 17)\<rparr>"
  let ?r = "train example_env (ms_args ?ms) (ms_store ?ms) (ms_g_optim ?ms) (ms_d_optim ?ms)
              example_rng"
  have run: "main example_env 1 example_args Map.empty example_store example_rng
               = Inr (fst ?r, snd ?r)"
    by (simp add: main_def example_setup bind_err_def)
  from teacher_generator_never_updated[OF run]
  have "state_dict (store (fst ?r) Generator) = state_dict (example_store Generator)"
    by (simp add: example_setup)
  then have "state_dict (store (fst ?r) Generator) = [(''w'', [1])]"
    by (simp add: example_store_def example_net_def state_dict_def)
  with run show ?thesis by blast
qed

subsection \<open>The R1 cadence, read from the trace\<close>





lemma discriminator_step_trace:
  assumes "discriminator_step e a i s = (s', err)"
  shows "events s' = events s \<and> r1_loss s' = r1_loss s"
  using assms
  by (auto simp: discriminator_step_def Let_def split: sum.splits prod.splits)

lemma discriminator_regularize_trace:
  assumes "discriminator_regularize e a i s = (s', err)"
  shows "(err \<noteq> None \<longrightarrow> s' = s)
       \<and> (err = None \<longrightarrow> args_d_reg_every a \<noteq> 0
            \<and> loss_dict s' ''r1'' = Some (r1_loss s')
            \<and> events s' = events s @ (if i mod args_d_reg_every a = 0
                                        then [D_r1_loss i (r1_loss s')] else [])
            \<and> (i mod args_d_reg_every a \<noteq> 0 \<longrightarrow> r1_loss s' = r1_loss s))"
  using assms
  by (auto simp: discriminator_regularize_def Let_def split: if_splits prod.splits)

lemma generator_step_trace:
  assumes "generator_step e a i s = (s', err)"
  shows "events s' = events s \<and> r1_loss s' = r1_loss s
       \<and> loss_dict s' ''r1'' = loss_dict s ''r1''"
  using assms
  by (auto simp: generator_step_def Let_def split: sum.splits prod.splits if_splits)

lemma generator_regularize_trace:
  assumes "generator_regularize e a i s = (s', err)"
  shows "events s' = events s \<and> r1_loss s' = r1_loss s
       \<and> loss_dict s' ''r1'' = loss_dict s ''r1''"
  using assms
  by (auto simp: generator_regularize_def and_then_def Let_def
      split: sum.splits prod.splits if_splits option.splits)

lemma ema_update_trace:
  assumes "ema_update s = (s', err)"
  shows "events s' = events s \<and> r1_loss s' = r1_loss s
       \<and> loss_dict s' ''r1'' = loss_dict s ''r1''"
  using assms by (auto simp: ema_update_def split: prod.splits)

lemma bind_err_Inr_iff:
  "bind_err r f = Inr v \<longleftrightarrow> (\<exists>x. r = Inr x \<and> f x = Inr v)"
  by (cases r) (simp_all add: bind_err_def)



lemma and_then_result:
  "and_then (t, et) f = (t', et') \<Longrightarrow>
     (et \<noteq> None \<and> t' = t \<and> et' = et) \<or> (et = None \<and> f t = (t', et'))"
  by (cases et) (auto simp: and_then_def)





subsection \<open>When the loop raises nothing\<close>

lemma net_shape_requires_grad: "net_shape (requires_grad n f) = net_shape n"
  by (induction n) (auto simp: net_shape_def requires_grad_def)

lemma net_shape_zero_grad: "net_shape (zero_grad n) = net_shape n"
  by (induction n) (auto simp: net_shape_def zero_grad_def)

lemma net_shape_backward: "net_shape (backward e ph i graph st m) = net_shape (st m)"
proof -
  have "net_shape (map (\<lambda>(k, p). if requires_grad_flag p
                              then (k, accumulate_grad p (f k))
                              else (k, p)) n) = net_shape n" for f n
    by (induction n) (auto simp: net_shape_def accumulate_grad_def)
  then show ?thesis by (simp add: backward_def)
qed

lemma net_shape_optim_step:
  assumes "optim_step e opt st = (st', opt')"
    and "\<forall>opt k d g. length (adam_update e opt k d g) = length d"
  shows "\<forall>m. net_shape (st' m) = net_shape (st m)"
proof -
  have "net_shape (map (\<lambda>(k, p). case pgrad p of
                                 None \<Rightarrow> (k, p)
                               | Some g \<Rightarrow> (k, p\<lparr>pdata := adam_update e opt k (pdata p) g\<rparr>)) n)
        = net_shape n" for n
    using assms(2) by (induction n) (auto simp: net_shape_def split: option.splits)
  then show ?thesis using assms(1) by (auto simp: optim_step_def Let_def)
qed

lemma accumulate_no_error:
  assumes "\<forall>(k, p) \<in> set model1.
             \<exists>q. map_of model2 k = Some q \<and> length (pdata q) = length (pdata p)"
  shows "snd (accumulate model1 model2 decay) = None
       \<and> net_shape (fst (accumulate model1 model2 decay)) = net_shape model1"
  using assms
proof (induction model1)
  case Nil
  then show ?case by (simp add: net_shape_def)
next
  case (Cons a model1)
  obtain k p where a: "a = (k, p)" by (cases a)
  from Cons.prems a obtain q
    where q: "map_of model2 k = Some q" "length (pdata q) = length (pdata p)"
    by auto
  have ih: "snd (accumulate model1 model2 decay) = None
       \<and> net_shape (fst (accumulate model1 model2 decay)) = net_shape model1"
    using Cons by simp
  show ?case using a q ih
    by (simp add: add_inplace_def mul_inplace_def split_def net_shape_def)
qed

lemma same_shape_lookup:
  assumes "net_shape model1 = net_shape model2" and "distinct (map fst model1)"
  shows "\<forall>(k, p) \<in> set model1.
             \<exists>q. map_of model2 k = Some q \<and> length (pdata q) = length (pdata p)"
proof -
  have fst_shape: "map fst (net_shape n) = map fst n" for n
    by (induction n) (auto simp: net_shape_def)
  have look: "map_of (net_shape n) k = map_option (\<lambda>p. length (pdata p)) (map_of n k)" for n k
    by (induction n) (auto simp: net_shape_def)
  {
    fix k p assume kp: "(k, p) \<in> set model1"
    then have "map_of model1 k = Some p" using assms(2) by simp
    then have "map_of (net_shape model1) k = Some (length (pdata p))" by (simp add: look)
    then have "map_option (\<lambda>p. length (pdata p)) (map_of model2 k) = Some (length (pdata p))"
      using assms(1) by (simp add: look)
    then have "\<exists>q. map_of model2 k = Some q \<and> length (pdata q) = length (pdata p)"
      by auto
  }
  then show ?thesis by auto
qed

lemma mixing_noise_returns:
  assumes "0 \<le> b" "0 \<le> d"
  shows "\<exists>v g'. mixing_noise b d prob g = Inr (v, g')"
proof -
  have one: "\<exists>v g'. make_noise b d 1 h = Inr (v, g')" for h
    using assms by (simp add: make_noise_def randn_def Let_def)
  have two: "\<exists>v g'. make_noise b d 2 h = Inr (v, g')" for h
    using assms by (simp add: make_noise_def randn_def unbind0_def Let_def)
  show ?thesis
  proof (cases "prob > 0")
    case False
    then show ?thesis using one[of g] by (auto simp: mixing_noise_def)
  next
    case True
    let ?g1 = "g\<lparr>uniform_stream := (\<lambda>i. uniform_stream g (Suc i))\<rparr>"
    show ?thesis
    proof (cases "uniform_stream g 0 < prob")
      case True
      then show ?thesis using \<open>prob > 0\<close> two[of ?g1] by (simp add: mixing_noise_def Let_def)
    next
      case False
      then show ?thesis using \<open>prob > 0\<close> one[of ?g1] by (auto simp: mixing_noise_def Let_def)
    qed
  qed
qed

lemma discriminator_step_returns:
  assumes "discriminator_step e a i s = (s', err)"
    and "0 \<le> args_batch a" "0 \<le> args_latent a"
    and "\<forall>opt k d g. length (adam_update e opt k d g) = length d"
  shows "err = None
       \<and> (\<forall>m. net_shape (store s' m) = net_shape (store s m))
       \<and> dom (loss_dict s') = dom (loss_dict s) \<union> {''d'', ''real_score'', ''fake_score''}"
  using assms mixing_noise_returns[of "args_batch a" "args_latent a" "args_mixing a" "rng s"]
  by (auto simp: discriminator_step_def Let_def net_shape_requires_grad net_shape_zero_grad
        net_shape_backward
      split: sum.splits prod.splits dest!: net_shape_optim_step)

lemma discriminator_regularize_returns:
  assumes "discriminator_regularize e a i s = (s', err)"
    and "args_d_reg_every a \<noteq> 0"
    and "\<forall>opt k d g. length (adam_update e opt k d g) = length d"
  shows "err = None
       \<and> (\<forall>m. net_shape (store s' m) = net_shape (store s m))
       \<and> dom (loss_dict s') = dom (loss_dict s) \<union> {''r1''}"
  using assms
  by (auto simp: discriminator_regularize_def Let_def net_shape_zero_grad net_shape_backward
      split: if_splits prod.splits dest!: net_shape_optim_step)

lemma ka_sum_returns:
  assumes "list_all (\<lambda>(x, y). x \<noteq> [] \<and> y \<noteq> [] \<and> length x = length y) pairs"
  shows "\<exists>v. ka_sum pairs acc = Inr v"
  using assms
proof (induction pairs arbitrary: acc)
  case Nil
  then show ?case by simp
next
  case (Cons xy pairs)
  obtain x y where xy: "xy = (x, y)" by (cases xy)
  then have "x \<noteq> []" "y \<noteq> []" "length x = length y" using Cons.prems by auto
  then obtain v where "KA x y = Inr v" by (auto simp: KA_def view_rows_def Let_def)
  then show ?case using Cons xy by simp
qed

lemma generator_step_returns:
  assumes "generator_step e a i s = (s', err)"
    and "0 \<le> args_batch a" "0 \<le> args_latent a"
    and "\<forall>opt k d g. length (adam_update e opt k d g) = length d"
    and "args_kernel_alignment a \<longrightarrow>
           (\<forall>i noise st p adv f_maps_s f_maps_t perc.
              g_forward e i noise st p = (adv, f_maps_s, f_maps_t, perc) \<longrightarrow>
              list_all (\<lambda>(x, y). x \<noteq> [] \<and> y \<noteq> [] \<and> length x = length y)
                (zip f_maps_s f_maps_t))"
  shows "err = None
       \<and> (\<forall>m. net_shape (store s' m) = net_shape (store s m))
       \<and> dom (loss_dict s') = dom (loss_dict s) \<union> {''g''}"
proof -
  let ?st3 = "(store s)(Student_generator := requires_grad (store s Student_generator) True,
       Generator := requires_grad (((store s)(Student_generator :=
                       requires_grad (store s Student_generator) True)) Generator) True,
       Student_discriminator := requires_grad (((store s)(Student_generator :=
                       requires_grad (store s Student_generator) True,
       Generator := requires_grad (((store s)(Student_generator :=
                       requires_grad (store s Student_generator) True)) Generator) True))
                     Student_discriminator) False)"
  obtain noise g' where n:
    "mixing_noise (args_batch a) (args_latent a) (args_mixing a) (rng s) = Inr (noise, g')"
    using mixing_noise_returns[OF assms(2,3)] by blast
  obtain adv fs ft perc where f: "g_forward e i noise ?st3 (ada_aug_p s) = (adv, fs, ft, perc)"
    by (cases "g_forward e i noise ?st3 (ada_aug_p s)")
  have "args_kernel_alignment a \<Longrightarrow> \<exists>v. ka_sum (zip fs ft) (Some 0) = Inr v"
  proof -
    assume "args_kernel_alignment a"
    with assms(5) f
    have "list_all (\<lambda>(x, y). x \<noteq> [] \<and> y \<noteq> [] \<and> length x = length y) (zip fs ft)"
      by blast
    then show ?thesis by (rule ka_sum_returns)
  qed
  then show ?thesis
    using assms(1,4) n f
    by (auto simp: generator_step_def Let_def net_shape_requires_grad net_shape_zero_grad
          net_shape_backward
        split: sum.splits prod.splits if_splits dest!: net_shape_optim_step)
qed

lemma generator_regularize_returns:
  assumes "generator_regularize e a i s = (s', err)"
    and "0 \<le> args_batch a" "0 \<le> args_latent a"
    and "args_g_reg_every a \<noteq> 0" "args_path_batch_shrink a \<noteq> 0"
    and "get_world_size e \<noteq> 0"
    and "\<forall>opt k d g. length (adam_update e opt k d g) = length d"
  shows "err = None
       \<and> (\<forall>m. net_shape (store s' m) = net_shape (store s m))
       \<and> dom (loss_dict s') = dom (loss_dict s) \<union> {''path'', ''path_length''}"
proof -
  have "(0::int) \<le> max 1 (args_batch a div args_path_batch_shrink a)" by simp
  from mixing_noise_returns[OF this assms(3), of "args_mixing a" "rng s"] assms
  show ?thesis
  by (auto simp: generator_regularize_def and_then_def Let_def net_shape_zero_grad
        net_shape_backward
      split: sum.splits prod.splits if_splits option.splits dest!: net_shape_optim_step)
qed

lemma net_shape_names: "map fst (net_shape n) = map fst n"
  by (induction n) (auto simp: net_shape_def)

lemma ema_update_returns:
  assumes "ema_update s = (s', err)"
    and "net_shape (store s Student_g_ema) = net_shape (store s Student_generator)"
    and "distinct (map fst (net_shape (store s Student_g_ema)))"
  shows "err = None
       \<and> (\<forall>m. net_shape (store s' m) = net_shape (store s m))
       \<and> loss_dict s' = loss_dict s"
proof -
  have "distinct (map fst (store s Student_g_ema))"
    using assms(3) by (simp add: net_shape_names)
  from same_shape_lookup[OF assms(2) this]
  have ok: "snd (accumulate (store s Student_g_ema) (store s Student_generator) accum) = None
       \<and> net_shape (fst (accumulate (store s Student_g_ema) (store s Student_generator) accum))
           = net_shape (store s Student_g_ema)"
    by (rule accumulate_no_error)
  obtain n en where acc: "accumulate (store s Student_g_ema) (store s Student_generator) accum
      = (n, en)"
    by (cases "accumulate (store s Student_g_ema) (store s Student_generator) accum")
  then have "en = None" "net_shape n = net_shape (store s Student_g_ema)" using ok by simp_all
  then show ?thesis using assms(1) acc by (auto simp: ema_update_def)
qed

lemma report_returns:
  assumes "report e a i s = (s', err)"
    and "{''g'', ''d'', ''path'', ''path_length'', ''r1'', ''real_score'', ''fake_score''}
           \<subseteq> dom (loss_dict s)"
  shows "err = None \<and> store s' = store s \<and> loss_dict s' = loss_dict s"
proof -
  have "\<exists>v. get_item (reduce_loss_dict e (loss_dict s)) k = Inr v"
    if "k \<in> dom (loss_dict s)" for k
    using that by (auto simp: get_item_def reduce_loss_dict_def)
  then obtain g d p pl r rs fs where
    "get_item (reduce_loss_dict e (loss_dict s)) ''g'' = Inr g"
    "get_item (reduce_loss_dict e (loss_dict s)) ''d'' = Inr d"
    "get_item (reduce_loss_dict e (loss_dict s)) ''path'' = Inr p"
    "get_item (reduce_loss_dict e (loss_dict s)) ''path_length'' = Inr pl"
    "get_item (reduce_loss_dict e (loss_dict s)) ''r1'' = Inr r"
    "get_item (reduce_loss_dict e (loss_dict s)) ''real_score'' = Inr rs"
    "get_item (reduce_loss_dict e (loss_dict s)) ''fake_score'' = Inr fs"
    using assms(2) by (meson insert_subset)
  then show ?thesis using assms(1)
    by (auto simp: report_def Let_def bind_err_def split: if_splits)
qed

lemma train_iteration_returns:
  assumes run: "train_iteration e a i s = (s', err)"
    and b: "0 \<le> args_batch a" and l: "0 \<le> args_latent a"
    and d: "args_d_reg_every a \<noteq> 0" and g: "args_g_reg_every a \<noteq> 0"
    and sh: "args_path_batch_shrink a \<noteq> 0"
    and w: "get_world_size e \<noteq> 0"
    and len: "\<forall>opt k d g. length (adam_update e opt k d g) = length d"
    and ka: "args_kernel_alignment a \<longrightarrow>
           (\<forall>i noise st p adv f_maps_s f_maps_t perc.
              g_forward e i noise st p = (adv, f_maps_s, f_maps_t, perc) \<longrightarrow>
              list_all (\<lambda>(x, y). x \<noteq> [] \<and> y \<noteq> [] \<and> length x = length y)
                (zip f_maps_s f_maps_t))"
    and same: "net_shape (store s Student_g_ema) = net_shape (store s Student_generator)"
    and dist: "distinct (map fst (net_shape (store s Student_g_ema)))"
  shows "err = None \<and> (\<forall>m. net_shape (store s' m) = net_shape (store s m))"
proof -
  obtain s1 e1 where r1: "discriminator_step e a i s = (s1, e1)"
    by (cases "discriminator_step e a i s")
  obtain s2 e2 where r2: "and_then (s1, e1) (discriminator_regularize e a i) = (s2, e2)"
    by (cases "and_then (s1, e1) (discriminator_regularize e a i)")
  obtain s3 e3 where r3: "and_then (s2, e2) (generator_step e a i) = (s3, e3)"
    by (cases "and_then (s2, e2) (generator_step e a i)")
  obtain s4 e4 where r4: "and_then (s3, e3) (generator_regularize e a i) = (s4, e4)"
    by (cases "and_then (s3, e3) (generator_regularize e a i)")
  obtain s5 e5 where r5: "and_then (s4, e4) ema_update = (s5, e5)"
    by (cases "and_then (s4, e4) ema_update")
  have r6: "and_then (s5, e5) (report e a i) = (s', err)"
    using run r1 r2 r3 r4 r5 by (simp add: train_iteration_def)
  note p1 = discriminator_step_returns[OF r1 b l len]
  have q2: "discriminator_regularize e a i s1 = (s2, e2)"
    using and_then_result[OF r2] p1 by simp
  note p2 = discriminator_regularize_returns[OF q2 d len]
  have q3: "generator_step e a i s2 = (s3, e3)"
    using and_then_result[OF r3] p2 by simp
  note p3 = generator_step_returns[OF q3 b l len ka]
  have q4: "generator_regularize e a i s3 = (s4, e4)"
    using and_then_result[OF r4] p3 by simp
  note p4 = generator_regularize_returns[OF q4 b l g sh w len]
  have q5: "ema_update s4 = (s5, e5)"
    using and_then_result[OF r5] p4 by simp
  have shape4: "\<forall>m. net_shape (store s4 m) = net_shape (store s m)"
    using p1 p2 p3 p4 by simp
  have same4: "net_shape (store s4 Student_g_ema) = net_shape (store s4 Student_generator)"
    using shape4 same by simp
  have dist4: "distinct (map fst (net_shape (store s4 Student_g_ema)))"
    using shape4 dist by simp
  note p5 = ema_update_returns[OF q5 same4 dist4]
  have q6: "report e a i s5 = (s', err)"
    using and_then_result[OF r6] p5 by simp
  have dom5: "dom (loss_dict s5) = dom (loss_dict s)
      \<union> {''d'', ''real_score'', ''fake_score''} \<union> {''r1''} \<union> {''g''}
      \<union> {''path'', ''path_length''}"
    using p1 p2 p3 p4 p5 by simp
  have keys: "{''g'', ''d'', ''path'', ''path_length'', ''r1'', ''real_score'', ''fake_score''}
           \<subseteq> dom (loss_dict s5)"
    unfolding dom5 by blast
  note p6 = report_returns[OF q6 keys]
  show ?thesis using p6 p5 shape4 by simp
qed



lemma example_conditions:
  "0 \<le> args_batch example_args" "0 \<le> args_latent example_args"
  "0 \<le> args_n_sample example_args"
  "args_d_reg_every example_args \<noteq> 0" "args_g_reg_every example_args \<noteq> 0"
  "args_path_batch_shrink example_args \<noteq> 0"
  "get_world_size example_env \<noteq> 0"
  "\<forall>opt k d g. length (adam_update example_env opt k d g) = length d"
  "args_kernel_alignment example_args \<longrightarrow>
           (\<forall>i noise st p adv f_maps_s f_maps_t perc.
              g_forward example_env i noise st p = (adv, f_maps_s, f_maps_t, perc) \<longrightarrow>
              list_all (\<lambda>(x, y). x \<noteq> [] \<and> y \<noteq> [] \<and> length x = length y)
                (zip f_maps_s f_maps_t))"
  "net_shape (example_store Student_g_ema) = net_shape (example_store Student_generator)"
  "distinct (map fst (net_shape (example_store Student_g_ema)))"
  by (simp_all add: example_args_def example_env_def example_store_def example_net_def
        net_shape_def)



subsection \<open>The periodic outputs of the first iteration\<close>

lemma report_outputs:
  assumes "report e a i s = (s', None)" and "get_rank e = 0"
  shows "\<exists>evs. events s' = events s @ evs @ periodic_outputs a i s'
             \<and> \<not> list_ex writes_file evs"
proof -
  from assms obtain evs where evs: "events s' = events s @ evs"
    and same: "store s' = store s" "g_optim s' = g_optim s" "d_optim s' = d_optim s"
       "ada_aug_p s' = ada_aug_p s"
    and b: "bind_err (get_item (reduce_loss_dict e (loss_dict s)) ''g'') (\<lambda>g_loss_val.
        bind_err (get_item (reduce_loss_dict e (loss_dict s)) ''d'') (\<lambda>d_loss_val.
        bind_err (get_item (reduce_loss_dict e (loss_dict s)) ''path'') (\<lambda>path_loss_val.
        bind_err (get_item (reduce_loss_dict e (loss_dict s)) ''path_length'') (\<lambda>path_length_val.
        bind_err (get_item (reduce_loss_dict e (loss_dict s)) ''r1'') (\<lambda>r1_val.
        bind_err (get_item (reduce_loss_dict e (loss_dict s)) ''real_score'') (\<lambda>real_score_val.
        bind_err (get_item (reduce_loss_dict e (loss_dict s)) ''fake_score'') (\<lambda>fake_score_val.
          Inr
            ([Set_description i
                [(''d'', d_loss_val), (''g'', g_loss_val), (''r1'', r1_val),
                 (''path'', path_loss_val), (''mean path'', mean_path_length_avg s),
                 (''augment'', Some (ada_aug_p s))]]
             @ (if wandb_imported e \<and> args_wandb a then
                  [Wandb_log i
                     [(''Generator'', g_loss_val), (''Discriminator'', d_loss_val),
                      (''Augment'', Some (ada_aug_p s)), (''Rt'', Some (r_t_stat s)),
                      (''R1'', r1_val), (''Path Length Regularization'', path_loss_val),
                      (''Mean Path Length'', mean_path_length s),
                      (''Real Score'', real_score_val), (''Fake Score'', fake_score_val),
                      (''Path Length'', path_length_val)]]
                else [])
             @ periodic_outputs a i s)))))))) = Inr evs"
    by (auto simp: report_def Let_def split: sum.splits if_splits)
  have po: "periodic_outputs a i s' = periodic_outputs a i s"
    using same by (simp add: periodic_outputs_def)
  from b obtain ms ws where new: "evs = ([Set_description i ms] @ ws) @ periodic_outputs a i s"
    and ws: "ws = [] \<or> (\<exists>ms'. ws = [Wandb_log i ms'])"
    by (auto simp: bind_err_Inr_iff split: if_splits)
  have "\<not> list_ex writes_file ([Set_description i ms] @ ws)" using ws by auto
  then show ?thesis using evs new po by (intro exI[of _ "[Set_description i ms] @ ws"]) simp
qed

lemma train_iteration_outputs:
  assumes run: "train_iteration e a i s = (s', None)" and rank: "get_rank e = 0"
  shows "\<exists>evs. events s' = events s @ evs @ periodic_outputs a i s'
             \<and> \<not> list_ex writes_file evs"
proof -
  obtain s1 e1 where r1: "discriminator_step e a i s = (s1, e1)"
    by (cases "discriminator_step e a i s")
  obtain s2 e2 where r2: "and_then (s1, e1) (discriminator_regularize e a i) = (s2, e2)"
    by (cases "and_then (s1, e1) (discriminator_regularize e a i)")
  obtain s3 e3 where r3: "and_then (s2, e2) (generator_step e a i) = (s3, e3)"
    by (cases "and_then (s2, e2) (generator_step e a i)")
  obtain s4 e4 where r4: "and_then (s3, e3) (generator_regularize e a i) = (s4, e4)"
    by (cases "and_then (s3, e3) (generator_regularize e a i)")
  obtain s5 e5 where r5: "and_then (s4, e4) ema_update = (s5, e5)"
    by (cases "and_then (s4, e4) ema_update")
  have r6: "and_then (s5, e5) (report e a i) = (s', None)"
    using run r1 r2 r3 r4 r5 by (simp add: train_iteration_def)
  have n5: "e5 = None" and q6: "report e a i s5 = (s', None)"
    using and_then_result[OF r6] by auto
  have n4: "e4 = None" and q5: "ema_update s4 = (s5, None)"
    using and_then_result[OF r5] n5 by auto
  have n3: "e3 = None" and q4: "generator_regularize e a i s3 = (s4, None)"
    using and_then_result[OF r4] n4 by auto
  have n2: "e2 = None" and q3: "generator_step e a i s2 = (s3, None)"
    using and_then_result[OF r3] n3 by auto
  have n1: "e1 = None" and q2: "discriminator_regularize e a i s1 = (s2, None)"
    using and_then_result[OF r2] n2 by auto
  define X where "X = (if i mod args_d_reg_every a = 0 then [D_r1_loss i (r1_loss s2)] else [])"
  have x: "\<not> list_ex writes_file X" by (simp add: X_def)
  have ev5: "events s5 = events s @ X"
    using discriminator_step_trace[OF r1] discriminator_regularize_trace[OF q2]
      generator_step_trace[OF q3] generator_regularize_trace[OF q4] ema_update_trace[OF q5]
    by (simp add: X_def)
  from report_outputs[OF q6 rank] obtain evs where
    evs: "events s' = events s5 @ evs @ periodic_outputs a i s'"
      "\<not> list_ex writes_file evs" by blast
  have "events s' = events s @ (X @ evs) @ periodic_outputs a i s'"
    using evs(1) ev5 by simp
  moreover have "\<not> list_ex writes_file (X @ evs)" using x evs(2) by simp
  ultimately show ?thesis by blast
qed

lemma name_000000: "zfill (py_str 0) 6 = ''000000''"
  by (simp add: zfill_def py_str_def nat_digits.simps digit_char_def numeral_eq_Suc)

text \<open>
  Claim C10: when the start iteration is 0 and at least one iteration is to run, the
  first pass through the loop has index 0, and if it raises nothing then on rank zero
  it ends by writing the sample grid \<open>sample/000000-student.png\<close> and the checkpoint
  \<open>checkpoints/000000.pt\<close> under the experiment directory (the checkpoint holding the
  student's weights, EMA weights, optimizer states, the options and the augmentation
  probability as they are then). Nothing wrote a file before, and the run goes on with
  the iterations from 1.
\<close>

theorem first_iteration_writes_sample_and_checkpoint:
  assumes start: "args_start_iter a = 0" and iter: "0 < args_iter a"
    and rank: "get_rank e = 0"
    and init: "train_init a st g_opt d_opt g = (s0, None)"
    and first: "train_iteration e a 0 s0 = (s1, None)"
  shows "train e a st g_opt d_opt g = train_loop e a (map int [1..<nat (args_iter a)]) s1
       \<and> \<not> list_ex writes_file (events s0)
       \<and> (\<exists>evs. \<not> list_ex writes_file evs
            \<and> events s1 = events s0 @ evs @
                [Save_image (args_expr_dir a @ ''/sample/000000-student.png''),
                 Torch_save (args_expr_dir a @ ''/checkpoints/000000.pt'')
                   \<lparr>ck_g = state_dict (store s1 Student_generator),
                    ck_d = state_dict (store s1 Student_discriminator),
                    ck_g_ema = state_dict (store s1 Student_g_ema),
                    ck_g_optim = opt_state (g_optim s1),
                    ck_d_optim = opt_state (d_optim s1),
                    ck_args = a,
                    ck_ada_aug_p = ada_aug_p s1\<rparr>])"
proof -
  have rng: "py_range (args_iter a) = 0 # map int [1..<nat (args_iter a)]"
    using iter by (simp add: py_range_def upt_conv_Cons)
  have c1: "train e a st g_opt d_opt g = train_loop e a (map int [1..<nat (args_iter a)]) s1"
    using init first start iter by (simp add: train_def rng and_then_def Let_def)
  have c2: "\<not> list_ex writes_file (events s0)"
    using init by (auto simp: train_init_def Let_def split: sum.splits)
  have po: "periodic_outputs a 0 s1 =
        [Save_image (args_expr_dir a @ ''/sample/000000-student.png''),
         Torch_save (args_expr_dir a @ ''/checkpoints/000000.pt'')
           \<lparr>ck_g = state_dict (store s1 Student_generator),
            ck_d = state_dict (store s1 Student_discriminator),
            ck_g_ema = state_dict (store s1 Student_g_ema),
            ck_g_optim = opt_state (g_optim s1),
            ck_d_optim = opt_state (d_optim s1),
            ck_args = a,
            ck_ada_aug_p = ada_aug_p s1\<rparr>]"
    by (simp add: periodic_outputs_def sample_path_def checkpoint_path_def name_000000)
  from train_iteration_outputs[OF first rank] obtain evs where
    evs: "events s1 = events s0 @ evs @ periodic_outputs a 0 s1"
      "\<not> list_ex writes_file evs" by blast
  have c3: "\<exists>evs. \<not> list_ex writes_file evs
            \<and> events s1 = events s0 @ evs @
                [Save_image (args_expr_dir a @ ''/sample/000000-student.png''),
                 Torch_save (args_expr_dir a @ ''/checkpoints/000000.pt'')
                   \<lparr>ck_g = state_dict (store s1 Student_generator),
                    ck_d = state_dict (store s1 Student_discriminator),
                    ck_g_ema = state_dict (store s1 Student_g_ema),
                    ck_g_optim = opt_state (g_optim s1),
                    ck_d_optim = opt_state (d_optim s1),
                    ck_args = a,
                    ck_ada_aug_p = ada_aug_p s1\<rparr>]"
    using evs unfolding po by blast
  show ?thesis by (intro conjI) (fact c1, fact c2, fact c3)
qed

theorem first_iteration_writes_sample_and_checkpoint_witness:
  "\<exists>s0 s1 evs ck.
      train_init example_args example_store (adam Student_generator (2 / 1000) (4 / 5))
        (adam Student_discriminator (2 / 1000) (16 / 17)) example_rng = (s0, None)
    \<and> train_iteration example_env example_args 0 s0 = (s1, None)
    \<and> train example_env example_args example_store (adam Student_generator (2 / 1000) (4 / 5))
        (adam Student_discriminator (2 / 1000) (16 / 17)) example_rng
        = train_loop example_env example_args (map int [1..<32]) s1
    \<and> events s1 = events s0 @ evs @
         [Save_image ''./expr/sample/000000-student.png'',
          Torch_save ''./expr/checkpoints/000000.pt'' ck]"
proof -
  let ?go = "adam Student_generator (2 / 1000) (4 / 5)"
  let ?do = "adam Student_discriminator (2 / 1000) (16 / 17)"
  obtain s0 where init: "train_init example_args example_store ?go ?do example_rng = (s0, None)"
    and s0: "store s0 = example_store"
    using example_conditions(2,3) by (auto simp: train_init_def randn_def Let_def)
  let ?r = "train_iteration example_env example_args 0 s0"
  have run: "?r = (fst ?r, snd ?r)" by simp
  have same: "net_shape (store s0 Student_g_ema) = net_shape (store s0 Student_generator)"
    and dist: "distinct (map fst (net_shape (store s0 Student_g_ema)))"
    using example_conditions(10,11) s0 by simp_all
  have "snd ?r = None \<and> (\<forall>m. net_shape (store (fst ?r) m) = net_shape (store s0 m))"
    by (rule train_iteration_returns[OF run example_conditions(1,2,4,5,6,7,8,9) same dist])
  then have first: "?r = (fst ?r, None)" by (simp add: prod_eq_iff)
  have st: "args_start_iter example_args = 0" and it: "0 < args_iter example_args"
    and rk: "get_rank example_env = 0"
    by (simp_all add: example_args_def example_env_def)
  have dir: "args_expr_dir example_args = ''./expr''" "nat (args_iter example_args) = 32"
    by (simp_all add: example_args_def)
  from first_iteration_writes_sample_and_checkpoint[OF st it rk init first]
  show ?thesis using init first unfolding dir by auto
qed

subsection \<open>Resuming the student\<close>

lemma name_010000:
  "py_int (fst (splitext (basename ''expr/checkpoints/010000.pt''))) = Inr 10000"
  by (simp add: py_int_def splitext_def basename_def rfind_def strip_def is_space_def
        is_digit_def Let_def)

text \<open>
  Claim C2 says that with \<open>ckpt_s\<close> given, the student generator's weights, its EMA
  weights, both optimizer states and the start iteration all come from the file named
  by \<open>ckpt_s\<close>. The set-up evaluated on two inputs shows what the code does instead.
  With \<open>ckpt_s\<close> alone, it stops with \<open>NameError\<close> on the unbound name \<open>ckpt\<close>. With a
  teacher checkpoint \<open>ckpt\<close> as well, the student generator and its EMA end with the
  weights stored in the teacher's file, not those of the student's file, while the two
  optimizer states are those of the student's file and the start iteration is the
  number in its name.
\<close>

theorem resume_takes_student_weights_from_ckpt:
  "main_setup 1 (example_args\<lparr>args_ckpt_s := Some ''expr/checkpoints/010000.pt''\<rparr>)
      example_files example_store = Inl (NameError ''ckpt'')
   \<and> (\<exists>ms. main_setup 1
               (example_args\<lparr>args_ckpt := Some ''teacher.pt'',
                              args_ckpt_s := Some ''expr/checkpoints/010000.pt''\<rparr>)
               example_files example_store = Inr ms
          \<and> state_dict (ms_store ms Student_generator) = ck_g example_teacher_ckpt
          \<and> state_dict (ms_store ms Student_generator) \<noteq> ck_g example_student_ckpt
          \<and> state_dict (ms_store ms Student_g_ema) = ck_g_ema example_teacher_ckpt
          \<and> state_dict (ms_store ms Student_g_ema) \<noteq> ck_g_ema example_student_ckpt
          \<and> opt_state (ms_g_optim ms) = ck_g_optim example_student_ckpt
          \<and> opt_state (ms_d_optim ms) = ck_d_optim example_student_ckpt
          \<and> args_start_iter (ms_args ms) = 10000)"
  by (simp add: main_setup_def teacher_setup_def reg_ratio_def load_teacher_def
        resume_student_def bind_err_def torch_load_def load_state_dict_def
        example_args_def example_store_def example_net_def example_files_def
        example_teacher_ckpt_def example_student_ckpt_def
        add_inplace_def mul_inplace_def state_dict_def Let_def name_010000 adam_def)

end
